theory Spec2Isabelle
  imports Main "HOL-Library.Word"
begin

section \<open>Data model (internal/models/incident.go)\<close>

text \<open>
  The three enumerations of the source are Go string types: a value of the type can be
  any string (the JSON decoder puts whatever the client sent), and \<open>IsValid\<close> is the only
  thing that separates the listed constants from the rest. They are strings here too.
\<close>

type_synonym IncidentSeverity = string
type_synonym IncidentStatus = string
type_synonym NoteType = string

definition Low :: IncidentSeverity where "Low = ''low''"
definition Medium :: IncidentSeverity where "Medium = ''medium''"
definition High :: IncidentSeverity where "High = ''high''"
definition Critical :: IncidentSeverity where "Critical = ''critical''"

definition Open :: IncidentStatus where "Open = ''open''"
definition InProgress :: IncidentStatus where "InProgress = ''in_progress''"
definition Resolved :: IncidentStatus where "Resolved = ''resolved''"
definition Closed :: IncidentStatus where "Closed = ''closed''"

definition Update :: NoteType where "Update = ''update''"
definition Investigation :: NoteType where "Investigation = ''investigation''"
definition Resolution :: NoteType where "Resolution = ''resolution''"
definition Communication :: NoteType where "Communication = ''communication''"

text \<open>
  \<open>primitive.ObjectID\<close> is \<open>[12]byte\<close>: 96 bits, the first byte the most significant.
  \<open>time.Time\<close> is an instant; Go's \<open>int\<close> is 64 bits wide and signed (read with \<open>sint\<close>).
\<close>

type_synonym ObjectID = "96 word"
type_synonym Time = nat
type_synonym go_int = "64 word"

record Note =
  n_ID :: ObjectID
  n_Content :: string
  n_CreatedAt :: Time
  n_AuthorEmail :: string
  n_Type :: NoteType

record Watcher =
  Email :: string

record Incident =
  ID :: ObjectID
  IncidentKey :: go_int
  Title :: string
  Severity :: IncidentSeverity
  Status :: IncidentStatus
  CreatedAt :: Time
  UpdatedAt :: Time
  Notes :: "Note list"
  WatchList :: "Watcher list"
  CreatedBy :: string
  Description :: string
  Assignee :: string

record CreateIncidentRequest =
  cr_Title :: string
  cr_Severity :: IncidentSeverity
  cr_Description :: string
  cr_Notes :: "Note list"
  cr_AuthorEmail :: string
  cr_Assignee :: string

record UpdateIncidentStatusRequest =
  us_Status :: IncidentStatus
  us_AuthorEmail :: string

record UpdateIncidentSeverityRequest =
  usv_Severity :: IncidentSeverity
  usv_AuthorEmail :: string

record AddNoteRequest =
  an_Content :: string
  an_AuthorEmail :: string
  an_Type :: NoteType

definition ValidSeverities :: "IncidentSeverity list" where
  "ValidSeverities = [Low, Medium, High, Critical]"

definition ValidStatuses :: "IncidentStatus list" where
  "ValidStatuses = [Open, InProgress, Resolved, Closed]"

text \<open>The two \<open>IsValid\<close> methods: a loop over the list that returns at the first match.\<close>

definition IncidentSeverity_IsValid :: "IncidentSeverity \<Rightarrow> bool" where
  "IncidentSeverity_IsValid s = list_ex (\<lambda>severity. s = severity) ValidSeverities"

definition IncidentStatus_IsValid :: "IncidentStatus \<Rightarrow> bool" where
  "IncidentStatus_IsValid s = list_ex (\<lambda>status. s = status) ValidStatuses"

section \<open>Errors\<close>

text \<open>
  Every Go error of the repository and of the service is a message, most of them wrapping
  another one with \<open>fmt.Errorf("...: %w", err)\<close>. One constructor stands for each message
  format; the wrapped error is its argument.
\<close>

datatype error =
    ErrNum                             \<comment> \<open>strconv's \<open>NumError\<close>: invalid syntax, or value out of range\<close>
  | ErrInvalidHex                      \<comment> \<open>the error of \<open>ObjectIDFromHex\<close>: wrong length, or no hex digit\<close>
  | ErrBadFormat                       \<comment> \<open>checkmail: invalid format\<close>
  | ErrDuplicateKey                    \<comment> \<open>the store refuses a second document with the same \<open>_id\<close>\<close>
  | RepoInvalidIDFormat error          \<comment> \<open>"invalid incident ID format: %w"\<close>
  | RepoInvalidIncidentID error        \<comment> \<open>"invalid incident ID: %w"\<close>
  | RepoIncidentNotFound               \<comment> \<open>"incident not found"\<close>
  | RepoFailedCreate error             \<comment> \<open>"failed to create incident: %w" (repository)\<close>
  | InvalidSeverity IncidentSeverity   \<comment> \<open>"invalid severity: %s"\<close>
  | InvalidStatus IncidentStatus       \<comment> \<open>"invalid status: %s"\<close>
  | InvalidEmailFormat error           \<comment> \<open>"invalid email format: %w"\<close>
  | InvalidEmail error                 \<comment> \<open>"invalid email: %w"\<close>
  | FailedGenerateKey error            \<comment> \<open>"failed to generate incident key: %w"\<close>
  | FailedCreateIncident error         \<comment> \<open>"failed to create incident: %w" (service)\<close>
  | FailedGetIncident error            \<comment> \<open>"failed to get incident: %w"\<close>
  | IncidentNotFound error             \<comment> \<open>"incident not found: %w"\<close>
  | CannotTransition IncidentStatus IncidentStatus  \<comment> \<open>"cannot transition from %s to %s"\<close>
  | InvalidStatusTransition error      \<comment> \<open>"invalid status transition: %w"\<close>
  | FailedUpdateStatus error           \<comment> \<open>"failed to update incident status: %w"\<close>
  | StatusUpdatedWatcherFailed error   \<comment> \<open>"status updated but failed to add watcher to incident: %w"\<close>
  | FailedUpdateSeverity error         \<comment> \<open>"failed to update incident severity: %w"\<close>
  | SeverityUpdatedWatcherFailed error \<comment> \<open>"updated incident severity but failed to add watcher to incident: %w"\<close>
  | FailedAddNote error                \<comment> \<open>"failed to add note to incident: %w"\<close>
  | FailedAddWatcher error             \<comment> \<open>"failed to add watcher to incident: %w"\<close>

section \<open>Library functions the code calls\<close>

subsection \<open>strconv.Atoi\<close>

text \<open>
  \<open>strconv.Atoi\<close> accepts an optional sign followed by one or more decimal digits, and
  nothing else (no space, no underscore); the value has to fit the 64-bit \<open>int\<close>.
  Every other string gets a \<open>NumError\<close>.
\<close>

definition isDigit :: "char \<Rightarrow> bool" where
  "isDigit c = (48 \<le> (of_char c :: nat) \<and> (of_char c :: nat) \<le> 57)"

definition decimal :: "string \<Rightarrow> nat option" where
  "decimal ds =
     (if ds = [] \<or> \<not> list_all isDigit ds then None
      else Some (foldl (\<lambda>n c. 10 * n + (of_char c - 48)) 0 ds))"

definition Atoi :: "string \<Rightarrow> error + go_int" where
  "Atoi s =
     (case s of
        [] \<Rightarrow> Inl ErrNum
      | c # r \<Rightarrow>
          (let neg = (c = CHR ''-'');
               ds = (if c = CHR ''-'' \<or> c = CHR ''+'' then r else s)
           in case decimal ds of
                None \<Rightarrow> Inl ErrNum
              | Some n \<Rightarrow>
                  if neg then (if n \<le> 2 ^ 63 then Inr (- of_nat n) else Inl ErrNum)
                  else (if n < 2 ^ 63 then Inr (of_nat n) else Inl ErrNum)))"

text \<open>
  \<open>strconv.Itoa\<close> is how a key is written as an identifier: its decimal digits, with a
  minus sign before them when it is negative. The code does not call it; the clients do.
\<close>

function formatDecimal :: "nat \<Rightarrow> string" where
  "formatDecimal n =
     (if n < 10 then [''0123456789'' ! n]
      else formatDecimal (n div 10) @ [''0123456789'' ! (n mod 10)])"
  by pat_completeness auto
termination
  by (relation "measure (\<lambda>n. n)") auto

declare formatDecimal.simps [simp del]

definition Itoa :: "go_int \<Rightarrow> string" where
  "Itoa i =
     (if sint i < 0 then CHR ''-'' # formatDecimal (nat (- sint i))
      else formatDecimal (nat (sint i)))"


subsection \<open>primitive.ObjectIDFromHex and ObjectID.Hex\<close>

text \<open>
  \<open>ObjectIDFromHex\<close> wants exactly 24 characters and decodes them with \<open>encoding/hex\<close>,
  which reads the digits, \<open>a\<close> to \<open>f\<close> and \<open>A\<close> to \<open>F\<close>. \<open>Hex\<close> writes the twelve bytes
  with the lower-case table.
\<close>

definition fromHexChar :: "char \<Rightarrow> nat option" where
  "fromHexChar c =
     (let n = (of_char c :: nat) in
      if 48 \<le> n \<and> n \<le> 57 then Some (n - 48)
      else if 97 \<le> n \<and> n \<le> 102 then Some (n - 97 + 10)
      else if 65 \<le> n \<and> n \<le> 70 then Some (n - 65 + 10)
      else None)"

fun hexDecode :: "string \<Rightarrow> nat \<Rightarrow> nat option" where
  "hexDecode [] acc = Some acc"
| "hexDecode (c # cs) acc =
     (case fromHexChar c of None \<Rightarrow> None | Some d \<Rightarrow> hexDecode cs (16 * acc + d))"

definition ObjectIDFromHex :: "string \<Rightarrow> error + ObjectID" where
  "ObjectIDFromHex s =
     (if length s \<noteq> 24 then Inl ErrInvalidHex
      else case hexDecode s 0 of
             None \<Rightarrow> Inl ErrInvalidHex
           | Some n \<Rightarrow> Inr (of_nat n))"

definition hextable :: string where
  "hextable = ''0123456789abcdef''"

fun hexEncode :: "nat \<Rightarrow> nat \<Rightarrow> string" where
  "hexEncode 0 n = []"
| "hexEncode (Suc k) n = hexEncode k (n div 16) @ [hextable ! (n mod 16)]"

definition Hex :: "ObjectID \<Rightarrow> string" where
  "Hex oid = hexEncode 24 (unat oid)"

subsection \<open>strings.Trim\<close>

definition Trim :: "string \<Rightarrow> string \<Rightarrow> string" where
  "Trim s cutset =
     rev (dropWhile (\<lambda>c. c \<in> set cutset) (rev (dropWhile (\<lambda>c. c \<in> set cutset) s)))"

section \<open>The world the service runs in\<close>

text \<open>
  The incidents collection is the list of its documents in insertion order. The values
  that \<open>primitive.NewObjectID()\<close> and \<open>time.Now()\<close> return come from outside the program:
  the world holds both sequences and how many values of each have been taken.
  The store answers every call: a lost connection is outside the model, so the only
  errors of the collection are a duplicate \<open>_id\<close> and a filter that matches nothing.
  Log lines are not modelled.
\<close>

record World =
  collection :: "Incident list"
  oids :: "nat \<Rightarrow> ObjectID"
  oid_calls :: nat
  times :: "nat \<Rightarrow> Time"
  time_calls :: nat

definition NewObjectID :: "World \<Rightarrow> ObjectID \<times> World" where
  "NewObjectID w = (oids w (oid_calls w), w\<lparr>oid_calls := Suc (oid_calls w)\<rparr>)"

definition Now :: "World \<Rightarrow> Time \<times> World" where
  "Now w = (times w (time_calls w), w\<lparr>time_calls := Suc (time_calls w)\<rparr>)"

subsection \<open>The collection's operations\<close>

text \<open>
  \<open>InsertOne\<close> appends the document; the store keeps \<open>_id\<close> unique and refuses a
  duplicate. \<open>FindOne\<close> returns the first document the filter matches.
  \<open>FindOneAndUpdate\<close> with \<open>ReturnDocument(After)\<close> changes the first document the
  filter matches and returns it as changed.
\<close>

definition InsertOne :: "Incident list \<Rightarrow> Incident \<Rightarrow> error + Incident list" where
  "InsertOne docs d =
     (if list_ex (\<lambda>d'. ID d' = ID d) docs then Inl ErrDuplicateKey else Inr (docs @ [d]))"

definition FindOne :: "(Incident \<Rightarrow> bool) \<Rightarrow> Incident list \<Rightarrow> Incident option" where
  "FindOne flt docs = find flt docs"

fun FindOneAndUpdate ::
  "(Incident \<Rightarrow> bool) \<Rightarrow> (Incident \<Rightarrow> Incident) \<Rightarrow> Incident list
     \<Rightarrow> (Incident \<times> Incident list) option" where
  "FindOneAndUpdate flt upd [] = None"
| "FindOneAndUpdate flt upd (d # ds) =
     (if flt d then Some (upd d, upd d # ds)
      else case FindOneAndUpdate flt upd ds of
             None \<Rightarrow> None
           | Some (r, ds') \<Rightarrow> Some (r, d # ds'))"

text \<open>
  \<open>FindOne\<close> sorted by \<open>incident_key\<close> descending: a document whose key is the greatest,
  in the signed order of \<open>int\<close>.
\<close>

fun FindOneMaxKey :: "Incident list \<Rightarrow> Incident option" where
  "FindOneMaxKey [] = None"
| "FindOneMaxKey (d # ds) =
     (case FindOneMaxKey ds of
        None \<Rightarrow> Some d
      | Some m \<Rightarrow> if sint (IncidentKey d) \<ge> sint (IncidentKey m) then Some d else Some m)"

text \<open>\<open>$addToSet\<close>: the value is appended unless the array already holds an equal one.\<close>

definition addToSet :: "'a list \<Rightarrow> 'a \<Rightarrow> 'a list" where
  "addToSet xs x = (if x \<in> set xs then xs else xs @ [x])"

section \<open>The event producer (internal/kafka, internal/models/event.go)\<close>

datatype KafkaEvent =
    IncidentCreated string string string string         \<comment> \<open>EventKey, Id, Title, Severity\<close>
  | IncidentStatusUpdated string string string string   \<comment> \<open>EventKey, Id, Title, Status\<close>
  | IncidentSeverityUpdated string string string string \<comment> \<open>EventKey, Id, Title, Severity\<close>
  | IncidentNoteAdded string string string string       \<comment> \<open>EventKey, Id, Title, Content\<close>

text \<open>\<open>Producer.ProduceMessage\<close> has an empty body: it returns \<open>nil\<close> and sends nothing.\<close>

definition ProduceMessage :: "KafkaEvent \<Rightarrow> error option" where
  "ProduceMessage event = None"

section \<open>The repository (package repository)\<close>

text \<open>
  Each function takes the world and returns its result with the world it leaves. A Go
  slice that is \<open>nil\<close> and one that is empty are both the empty list, so the step of
  \<open>Create\<close> that replaces \<open>nil\<close> notes by an empty slice changes nothing here.
\<close>

definition IncidentRepository_Create :: "World \<Rightarrow> Incident \<Rightarrow> (error + Incident) \<times> World" where
  "IncidentRepository_Create w incident =
     (let (now, w1) = Now w;
          (oid, w2) = NewObjectID w1;
          incident' = incident\<lparr>CreatedAt := now, UpdatedAt := now, ID := oid\<rparr>
      in case InsertOne (collection w2) incident' of
           Inl err \<Rightarrow> (Inl (RepoFailedCreate err), w2)
         | Inr docs \<Rightarrow> (Inr incident', w2\<lparr>collection := docs\<rparr>))"

definition IncidentRepository_UpdateStatus ::
  "World \<Rightarrow> string \<Rightarrow> IncidentStatus \<Rightarrow> (error + Incident) \<times> World" where
  "IncidentRepository_UpdateStatus w ident status =
     (case ObjectIDFromHex ident of
        Inl err \<Rightarrow> (Inl (RepoInvalidIDFormat err), w)
      | Inr objectID \<Rightarrow>
          (let (now, w1) = Now w
           in case FindOneAndUpdate (\<lambda>d. ID d = objectID)
                     (\<lambda>d. d\<lparr>Status := status, UpdatedAt := now\<rparr>) (collection w1) of
                None \<Rightarrow> (Inl RepoIncidentNotFound, w1)
              | Some (updatedIncident, docs) \<Rightarrow> (Inr updatedIncident, w1\<lparr>collection := docs\<rparr>)))"

definition IncidentRepository_UpdateSeverity ::
  "World \<Rightarrow> string \<Rightarrow> IncidentSeverity \<Rightarrow> (error + Incident) \<times> World" where
  "IncidentRepository_UpdateSeverity w ident severity =
     (case ObjectIDFromHex ident of
        Inl err \<Rightarrow> (Inl (RepoInvalidIDFormat err), w)
      | Inr objectID \<Rightarrow>
          (let (now, w1) = Now w
           in case FindOneAndUpdate (\<lambda>d. ID d = objectID)
                     (\<lambda>d. d\<lparr>Severity := severity, UpdatedAt := now\<rparr>) (collection w1) of
                None \<Rightarrow> (Inl RepoIncidentNotFound, w1)
              | Some (updatedIncident, docs) \<Rightarrow> (Inr updatedIncident, w1\<lparr>collection := docs\<rparr>)))"

definition IncidentRepository_AddNote ::
  "World \<Rightarrow> string \<Rightarrow> Note \<Rightarrow> (error + Incident) \<times> World" where
  "IncidentRepository_AddNote w incidentID note =
     (case ObjectIDFromHex incidentID of
        Inl err \<Rightarrow> (Inl (RepoInvalidIDFormat err), w)
      | Inr objectID \<Rightarrow>
          (let (oid, w1) = NewObjectID w;
               (created, w2) = Now w1;
               note' = note\<lparr>n_ID := oid, n_CreatedAt := created\<rparr>;
               (now, w3) = Now w2
           in case FindOneAndUpdate (\<lambda>d. ID d = objectID)
                     (\<lambda>d. d\<lparr>Notes := Notes d @ [note'], UpdatedAt := now\<rparr>) (collection w3) of
                None \<Rightarrow> (Inl RepoIncidentNotFound, w3)
              | Some (updatedIncident, docs) \<Rightarrow> (Inr updatedIncident, w3\<lparr>collection := docs\<rparr>)))"

definition IncidentRepository_GetByID :: "World \<Rightarrow> string \<Rightarrow> error + Incident" where
  "IncidentRepository_GetByID w ident =
     (case Atoi ident of
        Inl err \<Rightarrow> Inl (RepoInvalidIDFormat err)
      | Inr incidentKey \<Rightarrow>
          (case FindOne (\<lambda>d. IncidentKey d = incidentKey) (collection w) of
             None \<Rightarrow> Inl RepoIncidentNotFound
           | Some incident \<Rightarrow> Inr incident))"

definition IncidentRepository_AddWatcherToIncident ::
  "World \<Rightarrow> string \<Rightarrow> Watcher \<Rightarrow> (error + Incident) \<times> World" where
  "IncidentRepository_AddWatcherToIncident w incidentID watcher =
     (case ObjectIDFromHex incidentID of
        Inl err \<Rightarrow> (Inl (RepoInvalidIncidentID err), w)
      | Inr objectID \<Rightarrow>
          (let (now, w1) = Now w
           in case FindOneAndUpdate (\<lambda>d. ID d = objectID)
                     (\<lambda>d. d\<lparr>WatchList := addToSet (WatchList d) watcher, UpdatedAt := now\<rparr>)
                     (collection w1) of
                None \<Rightarrow> (Inl RepoIncidentNotFound, w1)
              | Some (updatedIncident, docs) \<Rightarrow> (Inr updatedIncident, w1\<lparr>collection := docs\<rparr>)))"

definition IncidentRepository_GetNextIncidentKey :: "World \<Rightarrow> error + go_int" where
  "IncidentRepository_GetNextIncidentKey w =
     (case FindOneMaxKey (collection w) of
        None \<Rightarrow> Inr 1
      | Some incident \<Rightarrow> Inr (IncidentKey incident + 1))"

section \<open>The service (package services)\<close>

text \<open>
  \<open>checkmail.ValidateFormat\<close> is a library's regular expression; the service only asks
  whether the address passes. The test is the parameter \<open>validFormat\<close> of every operation
  that validates an address.
\<close>

definition validateEmail :: "(string \<Rightarrow> bool) \<Rightarrow> string \<Rightarrow> error option" where
  "validateEmail validFormat email =
     (if \<not> validFormat email then Some (InvalidEmailFormat ErrBadFormat) else None)"

definition allowedTransitions :: "(IncidentStatus \<times> IncidentStatus list) list" where
  "allowedTransitions =
     [(Open, [InProgress, Resolved, Closed]),
      (InProgress, [Open, Resolved, Closed]),
      (Resolved, [Open, InProgress, Closed]),
      (Closed, [Open])]"

definition validateStatusTransition :: "IncidentStatus \<Rightarrow> IncidentStatus \<Rightarrow> error option" where
  "validateStatusTransition currentStatus newStatus =
     (case map_of allowedTransitions currentStatus of
        Some allowedStatuses \<Rightarrow>
          if list_ex (\<lambda>allowed. allowed = newStatus) allowedStatuses then None
          else Some (CannotTransition currentStatus newStatus)
      | None \<Rightarrow> Some (CannotTransition currentStatus newStatus))"

text \<open>
  The loop of \<open>CreateIncident\<close> over the request's notes: each note is replaced by a new
  one that takes an id and a time from the world, the content and the author from the
  request, and no \<open>Type\<close> (the composite literal leaves the field at its zero value).
\<close>

fun newNotes :: "Note list \<Rightarrow> World \<Rightarrow> Note list \<times> World" where
  "newNotes [] w = ([], w)"
| "newNotes (note # rest) w =
     (let (oid, w1) = NewObjectID w;
          (now, w2) = Now w1;
          (notes, w3) = newNotes rest w2
      in (\<lparr>n_ID = oid, n_Content = n_Content note, n_CreatedAt = now,
           n_AuthorEmail = n_AuthorEmail note, n_Type = []\<rparr> # notes, w3))"

definition IncidentService_AddWatcherToIncident ::
  "(string \<Rightarrow> bool) \<Rightarrow> World \<Rightarrow> string \<Rightarrow> Watcher \<Rightarrow> (error + Incident) \<times> World" where
  "IncidentService_AddWatcherToIncident validFormat w incidentID watcher =
     (case IncidentRepository_GetByID w incidentID of
        Inl err \<Rightarrow> (Inl (IncidentNotFound err), w)
      | Inr _ \<Rightarrow>
          (case validateEmail validFormat (Email watcher) of
             Some conditionErr \<Rightarrow> (Inl (InvalidEmail conditionErr), w)
           | None \<Rightarrow>
               (case IncidentRepository_AddWatcherToIncident w incidentID watcher of
                  (Inl err, w1) \<Rightarrow> (Inl (FailedAddWatcher err), w1)
                | (Inr updatedIncident, w1) \<Rightarrow> (Inr updatedIncident, w1))))"

text \<open>
  The incident handed to the repository has no id and no timestamps yet: the fields hold
  Go's zero values, written \<open>0\<close>.
\<close>

definition IncidentService_CreateIncident ::
  "(string \<Rightarrow> bool) \<Rightarrow> World \<Rightarrow> CreateIncidentRequest \<Rightarrow> (error + Incident) \<times> World" where
  "IncidentService_CreateIncident validFormat w req =
     (if \<not> IncidentSeverity_IsValid (cr_Severity req)
      then (Inl (InvalidSeverity (cr_Severity req)), w)
      else
        let (notes, w1) = newNotes (cr_Notes req) w in
        case (if Trim (cr_AuthorEmail req) '' '' \<noteq> []
              then (case validateEmail validFormat (cr_AuthorEmail req) of
                      Some conditionErr \<Rightarrow> Inl (InvalidEmail conditionErr)
                    | None \<Rightarrow> Inr [\<lparr>Email = cr_AuthorEmail req\<rparr>])
              else Inr []) of
          Inl err \<Rightarrow> (Inl err, w1)
        | Inr watcherList \<Rightarrow>
            (case IncidentRepository_GetNextIncidentKey w1 of
               Inl err \<Rightarrow> (Inl (FailedGenerateKey err), w1)
             | Inr nextKey \<Rightarrow>
                 (let incident =
                        \<lparr>ID = 0, IncidentKey = nextKey, Title = cr_Title req,
                         Severity = cr_Severity req, Status = Open,
                         CreatedAt = 0, UpdatedAt = 0,
                         Notes = notes, WatchList = watcherList,
                         CreatedBy = cr_AuthorEmail req,
                         Description = cr_Description req, Assignee = cr_Assignee req\<rparr>
                  in case IncidentRepository_Create w1 incident of
                       (Inl err, w2) \<Rightarrow> (Inl (FailedCreateIncident err), w2)
                     | (Inr createdIncident, w2) \<Rightarrow>
                         (let (eventKey, w3) = NewObjectID w2;
                              _ = ProduceMessage
                                    (IncidentCreated (Hex eventKey) (Hex (ID createdIncident))
                                       (Title createdIncident) (Severity createdIncident))
                          in (Inr createdIncident, w3)))))"

definition IncidentService_GetByID :: "World \<Rightarrow> string \<Rightarrow> error + Incident" where
  "IncidentService_GetByID w ident =
     (case IncidentRepository_GetByID w ident of
        Inl err \<Rightarrow> Inl (FailedGetIncident err)
      | Inr incident \<Rightarrow> Inr incident)"

definition IncidentService_UpdateIncidentStatus ::
  "(string \<Rightarrow> bool) \<Rightarrow> World \<Rightarrow> string \<Rightarrow> UpdateIncidentStatusRequest
     \<Rightarrow> (error + Incident) \<times> World" where
  "IncidentService_UpdateIncidentStatus validFormat w ident req =
     (if \<not> IncidentStatus_IsValid (us_Status req)
      then (Inl (InvalidStatus (us_Status req)), w)
      else
        case IncidentRepository_GetByID w ident of
          Inl err \<Rightarrow> (Inl (IncidentNotFound err), w)
        | Inr existingIncident \<Rightarrow>
            (case validateStatusTransition (Status existingIncident) (us_Status req) of
               Some err \<Rightarrow> (Inl (InvalidStatusTransition err), w)
             | None \<Rightarrow>
                 (case IncidentRepository_UpdateStatus w (Hex (ID existingIncident))
                         (us_Status req) of
                    (Inl err, w1) \<Rightarrow> (Inl (FailedUpdateStatus err), w1)
                  | (Inr updatedIncident, w1) \<Rightarrow>
                      (case (if Trim (us_AuthorEmail req) '' '' \<noteq> []
                             then IncidentService_AddWatcherToIncident validFormat w1 ident
                                    \<lparr>Email = us_AuthorEmail req\<rparr>
                             else (Inr updatedIncident, w1)) of
                         (Inl err, w2) \<Rightarrow> (Inl (StatusUpdatedWatcherFailed err), w2)
                       | (Inr _, w2) \<Rightarrow>
                           (let (eventKey, w3) = NewObjectID w2;
                                _ = ProduceMessage
                                      (IncidentStatusUpdated (Hex eventKey)
                                         (Hex (ID updatedIncident)) (Title updatedIncident)
                                         (Status updatedIncident))
                            in (Inr updatedIncident, w3))))))"

definition IncidentService_UpdateIncidentSeverity ::
  "(string \<Rightarrow> bool) \<Rightarrow> World \<Rightarrow> string \<Rightarrow> UpdateIncidentSeverityRequest
     \<Rightarrow> (error + Incident) \<times> World" where
  "IncidentService_UpdateIncidentSeverity validFormat w ident req =
     (if \<not> IncidentSeverity_IsValid (usv_Severity req)
      then (Inl (InvalidSeverity (usv_Severity req)), w)
      else
        case IncidentRepository_GetByID w ident of
          Inl err \<Rightarrow> (Inl (IncidentNotFound err), w)
        | Inr _ \<Rightarrow>
            (case IncidentRepository_UpdateSeverity w ident (usv_Severity req) of
               (Inl err, w1) \<Rightarrow> (Inl (FailedUpdateSeverity err), w1)
             | (Inr updatedIncident, w1) \<Rightarrow>
                 (case (if Trim (usv_AuthorEmail req) '' '' \<noteq> []
                        then IncidentService_AddWatcherToIncident validFormat w1 ident
                               \<lparr>Email = usv_AuthorEmail req\<rparr>
                        else (Inr updatedIncident, w1)) of
                    (Inl err, w2) \<Rightarrow> (Inl (SeverityUpdatedWatcherFailed err), w2)
                  | (Inr _, w2) \<Rightarrow>
                      (let (eventKey, w3) = NewObjectID w2;
                           _ = ProduceMessage
                                 (IncidentSeverityUpdated (Hex eventKey)
                                    (Hex (ID updatedIncident)) (Title updatedIncident)
                                    (Severity updatedIncident))
                       in (Inr updatedIncident, w3)))))"

definition IncidentService_AddNoteToIncident ::
  "World \<Rightarrow> string \<Rightarrow> AddNoteRequest \<Rightarrow> (error + Incident) \<times> World" where
  "IncidentService_AddNoteToIncident w incidentID req =
     (case IncidentRepository_GetByID w incidentID of
        Inl err \<Rightarrow> (Inl (IncidentNotFound err), w)
      | Inr existingIncident \<Rightarrow>
          (let note = \<lparr>n_ID = 0, n_Content = an_Content req, n_CreatedAt = 0,
                       n_AuthorEmail = an_AuthorEmail req, n_Type = an_Type req\<rparr>
           in case IncidentRepository_AddNote w (Hex (ID existingIncident)) note of
                (Inl err, w1) \<Rightarrow> (Inl (FailedAddNote err), w1)
              | (Inr updatedIncident, w1) \<Rightarrow>
                  (let (eventKey, w2) = NewObjectID w1;
                       _ = ProduceMessage
                             (IncidentNoteAdded (Hex eventKey) (Hex (ID updatedIncident))
                                (Title updatedIncident) (n_Content note))
                   in (Inr updatedIncident, w2))))"

section \<open>The handlers (package handlers)\<close>

text \<open>
  A handler receives the path parameter and the body as \<open>BodyParser\<close> decoded it, and
  answers with a status code and either an error text with the service's error or the
  incident.
\<close>

datatype Response =
    ErrorResponse nat string "error option"
  | DataResponse nat Incident

text \<open>
  \<open>err.Error() == "incident not found"\<close>: of all the messages above only the repository's
  bare one is this text; every service error is a longer text that wraps another.
\<close>

definition isIncidentNotFoundText :: "error \<Rightarrow> bool" where
  "isIncidentNotFoundText err = (err = RepoIncidentNotFound)"

definition IncidentHandler_CreateIncident ::
  "(string \<Rightarrow> bool) \<Rightarrow> World \<Rightarrow> CreateIncidentRequest \<Rightarrow> Response \<times> World" where
  "IncidentHandler_CreateIncident validFormat w req =
     (if cr_Title req = [] then (ErrorResponse 400 ''Title is required'' None, w)
      else if cr_Severity req = [] then (ErrorResponse 400 ''Severity is required'' None, w)
      else case IncidentService_CreateIncident validFormat w req of
             (Inl err, w1) \<Rightarrow> (ErrorResponse 500 ''Failed to create incident'' (Some err), w1)
           | (Inr incident, w1) \<Rightarrow> (DataResponse 201 incident, w1))"

definition IncidentHandler_AddNoteToIncident ::
  "World \<Rightarrow> string \<Rightarrow> AddNoteRequest \<Rightarrow> Response \<times> World" where
  "IncidentHandler_AddNoteToIncident w ident req =
     (if ident = [] then (ErrorResponse 400 ''Incident ID is required'' None, w)
      else if an_Content req = [] then (ErrorResponse 400 ''Note content is required'' None, w)
      else case IncidentService_AddNoteToIncident w ident req of
             (Inl err, w1) \<Rightarrow>
               if isIncidentNotFoundText err
               then (ErrorResponse 404 ''Incident not found'' None, w1)
               else (ErrorResponse 500 ''Failed to add note to incident'' (Some err), w1)
           | (Inr incident, w1) \<Rightarrow> (DataResponse 201 incident, w1))"

section \<open>The transition table as the specification writes it\<close>

definition spec_transition_table :: "(IncidentStatus \<times> IncidentStatus) set" where
  "spec_transition_table =
     {(Open, InProgress), (Open, Resolved), (Open, Closed),
      (InProgress, Open), (InProgress, Resolved), (InProgress, Closed),
      (Resolved, Open), (Resolved, InProgress), (Resolved, Closed),
      (Closed, Open)}"

section \<open>Example worlds\<close>

text \<open>
  A stand-in for the address test (an address holds an \<open>@\<close>), one stored incident with
  key 1, and a world that holds it.
\<close>

definition example_validFormat :: "string \<Rightarrow> bool" where
  "example_validFormat email = (CHR ''@'' \<in> set email)"

definition example_incident :: Incident where
  "example_incident =
     \<lparr>ID = 0x65a1b2c3d4e5f60718293a4b, IncidentKey = 1,
      Title = ''Database Connection Failed'', Severity = Critical, Status = Open,
      CreatedAt = 5, UpdatedAt = 5, Notes = [], WatchList = [],
      CreatedBy = [], Description = [], Assignee = []\<rparr>"

definition example_world :: World where
  "example_world =
     \<lparr>collection = [example_incident],
      oids = (\<lambda>n. 0x65a1b2c3d4e5f60718293a4c + of_nat n), oid_calls = 0,
      times = (\<lambda>n. 10 + n), time_calls = 0\<rparr>"

definition empty_world :: World where
  "empty_world =
     \<lparr>collection = [],
      oids = (\<lambda>n. 0x65a1b2c3d4e5f60718293a4c + of_nat n), oid_calls = 0,
      times = (\<lambda>n. 10 + n), time_calls = 0\<rparr>"

definition example_request :: CreateIncidentRequest where
  "example_request =
     \<lparr>cr_Title = ''Database Connection Failed'', cr_Severity = Critical,
      cr_Description = [],
      cr_Notes = [\<lparr>n_ID = 7, n_Content = ''Initial investigation shows connection timeout'',
                   n_CreatedAt = 3, n_AuthorEmail = ''john.doe@example.com'',
                   n_Type = Investigation\<rparr>],
      cr_AuthorEmail = ''a@b.com'', cr_Assignee = []\<rparr>"

definition example_note_request :: AddNoteRequest where
  "example_note_request =
     \<lparr>an_Content = ''Restarted the connection pool'', an_AuthorEmail = ''a@b.com'',
      an_Type = Update\<rparr>"

definition example_closed :: Incident where
  "example_closed = example_incident\<lparr>Status := Closed, UpdatedAt := 10\<rparr>"

definition example_world_closed :: World where
  "example_world_closed = example_world\<lparr>time_calls := 1, collection := [example_closed]\<rparr>"

section \<open>Identifiers: parsing and printing\<close>

lemma fromHexChar_hextable: "m < 16 \<Longrightarrow> fromHexChar (hextable ! m) = Some m"
proof -
  assume "m < 16"
  then have "m = 0 \<or> m = 1 \<or> m = 2 \<or> m = 3 \<or> m = 4 \<or> m = 5 \<or> m = 6 \<or> m = 7 \<or> m = 8
      \<or> m = 9 \<or> m = 10 \<or> m = 11 \<or> m = 12 \<or> m = 13 \<or> m = 14 \<or> m = 15"
    by arith
  then show ?thesis
    by (elim disjE) (simp_all add: fromHexChar_def hextable_def)
qed

lemma hexDecode_append:
  "hexDecode (xs @ ys) acc = (case hexDecode xs acc of None \<Rightarrow> None | Some a \<Rightarrow> hexDecode ys a)"
  by (induction xs arbitrary: acc) (auto split: option.splits)

lemma length_hexEncode: "length (hexEncode k n) = k"
  by (induction k arbitrary: n) auto

lemma hexDecode_hexEncode:
  "hexDecode (hexEncode k n) acc = Some (acc * 16 ^ k + n mod 16 ^ k)"
proof (induction k arbitrary: n acc)
  case 0
  then show ?case by simp
next
  case (Suc k)
  have "(n div 16) mod 16 ^ k * 16 + n mod 16 = n mod (16 * 16 ^ k)"
    by (metis (no_types) add.commute mod_mult2_eq mult.commute)
  then show ?case
    by (simp add: hexDecode_append Suc fromHexChar_hextable algebra_simps)
qed

text \<open>Printing a storage id and parsing it again gives the id back.\<close>

lemma ObjectIDFromHex_Hex: "ObjectIDFromHex (Hex oid) = Inr oid"
proof -
  have "unat oid < 2 ^ 96" using unsigned_less [of oid] by simp
  then have "unat oid mod 16 ^ 24 = unat oid" by simp
  then show ?thesis
    by (simp add: ObjectIDFromHex_def Hex_def length_hexEncode hexDecode_hexEncode)
qed

section \<open>The collection and the repository\<close>

lemma FindOneAndUpdate_None: "FindOneAndUpdate flt upd ds = None \<longleftrightarrow> find flt ds = None"
  by (induction ds) (auto split: option.splits)

lemma FindOneAndUpdate_Some:
  "find flt ds = Some d \<Longrightarrow>
   \<exists>ds'. FindOneAndUpdate flt upd ds = Some (upd d, ds') \<and> upd d \<in> set ds'
         \<and> length ds' = length ds"
proof (induction ds)
  case Nil
  then show ?case by simp
next
  case (Cons a ds)
  then show ?case by (cases "flt a") auto
qed

lemma FindOneAndUpdate_map:
  "FindOneAndUpdate flt upd ds = Some (r, ds') \<Longrightarrow> (\<And>d. f (upd d) = f d) \<Longrightarrow> map f ds' = map f ds"
proof (induction ds arbitrary: r ds')
  case Nil
  then show ?case by simp
next
  case (Cons a ds)
  then show ?case by (cases "flt a") (auto split: option.splits)
qed

lemma find_ID_exists: "d \<in> set ds \<Longrightarrow> \<exists>d0. find (\<lambda>x. ID x = ID d) ds = Some d0 \<and> ID d0 = ID d"
  by (induction ds) auto

lemma find_distinct:
  "distinct (map f ds) \<Longrightarrow> d \<in> set ds \<Longrightarrow> find (\<lambda>x. f x = f d) ds = Some d"
  by (induction ds) (auto simp: image_iff)

lemma GetByID_Inr:
  "IncidentRepository_GetByID w ident = Inr inc \<longleftrightarrow>
   (\<exists>k. Atoi ident = Inr k \<and> find (\<lambda>d. IncidentKey d = k) (collection w) = Some inc)"
  by (auto simp: IncidentRepository_GetByID_def FindOne_def split: sum.splits option.splits)

lemma GetByID_in_collection:
  "IncidentRepository_GetByID w ident = Inr inc \<Longrightarrow> inc \<in> set (collection w)"
  by (auto simp: GetByID_Inr dest: find_Some_iff[THEN iffD1] simp: in_set_conv_nth)

section \<open>Status transitions\<close>

lemma validateStatusTransition_table:
  "from \<in> set ValidStatuses \<Longrightarrow> to \<in> set ValidStatuses \<Longrightarrow>
   validateStatusTransition from to =
     (if (from, to) \<in> spec_transition_table then None else Some (CannotTransition from to))"
  by (auto simp: ValidStatuses_def validateStatusTransition_def allowedTransitions_def
      spec_transition_table_def Open_def InProgress_def Resolved_def Closed_def)

lemma repo_UpdateStatus_ok:
  assumes "inc \<in> set (collection w)"
  shows "\<exists>d0 docs. IncidentRepository_UpdateStatus w (Hex (ID inc)) st =
           (Inr (d0\<lparr>Status := st, UpdatedAt := times w (time_calls w)\<rparr>),
            w\<lparr>time_calls := Suc (time_calls w), collection := docs\<rparr>)
         \<and> d0 \<in> set (collection w) \<and> ID d0 = ID inc
         \<and> d0\<lparr>Status := st, UpdatedAt := times w (time_calls w)\<rparr> \<in> set docs
         \<and> map ID docs = map ID (collection w)
         \<and> map IncidentKey docs = map IncidentKey (collection w)
         \<and> find (\<lambda>x. ID x = ID inc) (collection w) = Some d0
         \<and> map WatchList docs = map WatchList (collection w)"
proof -
  let ?u = "\<lambda>d. d\<lparr>Status := st, UpdatedAt := times w (time_calls w)\<rparr>"
  obtain d0 where d0: "find (\<lambda>x. ID x = ID inc) (collection w) = Some d0" "ID d0 = ID inc"
    using find_ID_exists[OF assms] by blast
  obtain docs where docs: "FindOneAndUpdate (\<lambda>x. ID x = ID inc) ?u (collection w) = Some (?u d0, docs)"
      "?u d0 \<in> set docs"
    using FindOneAndUpdate_Some[OF d0(1), of ?u] by blast
  have m1: "map ID docs = map ID (collection w)"
    using FindOneAndUpdate_map[OF docs(1), of ID] by simp
  have m2: "map IncidentKey docs = map IncidentKey (collection w)"
    using FindOneAndUpdate_map[OF docs(1), of IncidentKey] by simp
  have m3: "map WatchList docs = map WatchList (collection w)"
    using FindOneAndUpdate_map[OF docs(1), of WatchList] by simp
  have "d0 \<in> set (collection w)"
    using d0(1) by (auto simp: find_Some_iff in_set_conv_nth)
  then show ?thesis
    using d0 docs m1 m2 m3
    by (auto simp: IncidentRepository_UpdateStatus_def ObjectIDFromHex_Hex Now_def)
qed


lemma repo_AddWatcher_collection:
  assumes "IncidentRepository_AddWatcherToIncident w ident x = (r, w')"
    and "\<And>d wl t. f (d\<lparr>WatchList := wl, UpdatedAt := t\<rparr>) = f d"
  shows "map f (collection w') = map f (collection w)"
proof (cases "ObjectIDFromHex ident")
  case (Inl e)
  then show ?thesis using assms(1) by (simp add: IncidentRepository_AddWatcherToIncident_def)
next
  case (Inr oid)
  let ?u = "\<lambda>d. d\<lparr>WatchList := addToSet (WatchList d) x, UpdatedAt := times w (time_calls w)\<rparr>"
  show ?thesis
  proof (cases "FindOneAndUpdate (\<lambda>d. ID d = oid) ?u (collection w)")
    case None
    then show ?thesis using assms(1) Inr
      by (auto simp: IncidentRepository_AddWatcherToIncident_def Now_def)
  next
    case (Some p)
    obtain u docs where p: "p = (u, docs)" by (cases p)
    have "map f docs = map f (collection w)"
      using FindOneAndUpdate_map[OF Some[unfolded p], of f] assms(2) by simp
    then show ?thesis using assms(1) Inr Some p
      by (auto simp: IncidentRepository_AddWatcherToIncident_def Now_def)
  qed
qed

lemma svc_AddWatcher_collection:
  assumes "IncidentService_AddWatcherToIncident vf w ident x = (r, w')"
    and "\<And>d wl t. f (d\<lparr>WatchList := wl, UpdatedAt := t\<rparr>) = f d"
  shows "map f (collection w') = map f (collection w)"
proof -
  consider (a) "w' = w"
    | (b) r' where "IncidentRepository_AddWatcherToIncident w ident x = (r', w')"
    using assms(1)
    by (auto simp: IncidentService_AddWatcherToIncident_def
        split: sum.splits option.splits prod.splits)
  then show ?thesis
  proof cases
    case a
    then show ?thesis by simp
  next
    case b
    show ?thesis by (rule repo_AddWatcher_collection[OF b]) (rule assms(2))
  qed
qed

lemma find_Some_holds: "find P xs = Some x \<Longrightarrow> P x \<and> x \<in> set xs"
  by (induction xs) (auto split: if_splits)

lemma repo_AddWatcher_failed:
  assumes "IncidentRepository_AddWatcherToIncident w ident x = (Inl err, w')"
  shows "collection w' = collection w"
  using assms
  by (auto simp: IncidentRepository_AddWatcherToIncident_def Now_def
      split: sum.splits option.splits prod.splits)

lemma svc_AddWatcher_failed:
  assumes "IncidentService_AddWatcherToIncident vf w ident x = (Inl err, w')"
  shows "collection w' = collection w"
  using assms repo_AddWatcher_failed
  by (auto simp: IncidentService_AddWatcherToIncident_def
      split: sum.splits option.splits prod.splits)

lemma UpdateStatus_outcomes:
  assumes valid: "IncidentStatus_IsValid to"
    and found: "IncidentRepository_GetByID w ident = Inr inc"
    and allowed: "validateStatusTransition (Status inc) to = None"
  shows "\<exists>d0 upd w1.
        find (\<lambda>x. ID x = ID inc) (collection w) = Some d0
      \<and> upd = d0\<lparr>Status := to, UpdatedAt := times w (time_calls w)\<rparr>
      \<and> IncidentRepository_UpdateStatus w (Hex (ID inc)) to = (Inr upd, w1)
      \<and> ID upd = ID inc \<and> Status upd = to \<and> upd \<in> set (collection w1)
      \<and> map WatchList (collection w1) = map WatchList (collection w)
      \<and> (Trim email '' '' = [] \<longrightarrow>
            IncidentService_UpdateIncidentStatus vf w ident
                \<lparr>us_Status = to, us_AuthorEmail = email\<rparr>
              = (Inr upd, w1\<lparr>oid_calls := Suc (oid_calls w1)\<rparr>))
      \<and> (Trim email '' '' \<noteq> [] \<longrightarrow>
            (\<forall>r2 w2.
               IncidentService_AddWatcherToIncident vf w1 ident \<lparr>Email = email\<rparr> = (r2, w2) \<longrightarrow>
               IncidentService_UpdateIncidentStatus vf w ident
                   \<lparr>us_Status = to, us_AuthorEmail = email\<rparr>
                 = (case r2 of
                      Inl err \<Rightarrow> (Inl (StatusUpdatedWatcherFailed err), w2)
                    | Inr _ \<Rightarrow> (Inr upd, w2\<lparr>oid_calls := Suc (oid_calls w2)\<rparr>))))
      \<and> (\<not> vf email \<longrightarrow>
            IncidentService_AddWatcherToIncident vf w1 ident \<lparr>Email = email\<rparr>
              = (Inl (InvalidEmail (InvalidEmailFormat ErrBadFormat)), w1))"
proof -
  let ?req = "\<lparr>us_Status = to, us_AuthorEmail = email\<rparr>"
  obtain d0 docs where upd:
    "IncidentRepository_UpdateStatus w (Hex (ID inc)) to =
         (Inr (d0\<lparr>Status := to, UpdatedAt := times w (time_calls w)\<rparr>),
          w\<lparr>time_calls := Suc (time_calls w), collection := docs\<rparr>)"
    "ID d0 = ID inc"
    "d0\<lparr>Status := to, UpdatedAt := times w (time_calls w)\<rparr> \<in> set docs"
    "map IncidentKey docs = map IncidentKey (collection w)"
    "find (\<lambda>x. ID x = ID inc) (collection w) = Some d0"
    "map WatchList docs = map WatchList (collection w)"
    using repo_UpdateStatus_ok[OF GetByID_in_collection[OF found], of to] by blast
  let ?upd = "d0\<lparr>Status := to, UpdatedAt := times w (time_calls w)\<rparr>"
  let ?w1 = "w\<lparr>time_calls := Suc (time_calls w), collection := docs\<rparr>"
  have blank: "IncidentService_UpdateIncidentStatus vf w ident ?req
              = (Inr ?upd, ?w1\<lparr>oid_calls := Suc (oid_calls ?w1)\<rparr>)"
    if "Trim email '' '' = []"
    using valid found allowed upd(1) that
    by (simp add: IncidentService_UpdateIncidentStatus_def NewObjectID_def Let_def)
  have author: "IncidentService_UpdateIncidentStatus vf w ident ?req
                 = (case r2 of
                      Inl err \<Rightarrow> (Inl (StatusUpdatedWatcherFailed err), w2)
                    | Inr _ \<Rightarrow> (Inr ?upd, w2\<lparr>oid_calls := Suc (oid_calls w2)\<rparr>))"
    if "Trim email '' '' \<noteq> []"
      and "IncidentService_AddWatcherToIncident vf ?w1 ident \<lparr>Email = email\<rparr> = (r2, w2)"
    for r2 w2
    using valid found allowed upd(1) that
    by (simp add: IncidentService_UpdateIncidentStatus_def NewObjectID_def Let_def
        split: sum.splits)
  obtain k where k: "Atoi ident = Inr k" "find (\<lambda>d. IncidentKey d = k) (collection w) = Some inc"
    using found by (auto simp: GetByID_Inr)
  have "find (\<lambda>d. IncidentKey d = k) (collection ?w1) \<noteq> None"
  proof -
    have "k \<in> set (map IncidentKey (collection w))"
      using find_Some_holds[OF k(2)] by force
    then have "k \<in> set (map IncidentKey docs)" using upd(4) by simp
    then show ?thesis by (auto simp: find_None_iff)
  qed
  then obtain inc1 where found1: "IncidentRepository_GetByID ?w1 ident = Inr inc1"
    using k(1) by (auto simp: GetByID_Inr)
  have bad: "IncidentService_AddWatcherToIncident vf ?w1 ident \<lparr>Email = email\<rparr>
      = (Inl (InvalidEmail (InvalidEmailFormat ErrBadFormat)), ?w1)"
    if "\<not> vf email"
    using that found1 by (simp add: IncidentService_AddWatcherToIncident_def validateEmail_def)
  have facts: "ID ?upd = ID inc" "Status ?upd = to" "?upd \<in> set (collection ?w1)"
      "map WatchList (collection ?w1) = map WatchList (collection w)"
    using upd(2,3,6) by simp_all
  show ?thesis
    using upd(5) upd(1) facts blank author bad by blast
qed

lemma UpdateStatus_by_key:
  assumes valid: "IncidentStatus_IsValid to"
    and found: "IncidentRepository_GetByID w ident = Inr inc"
    and allowed: "validateStatusTransition (Status inc) to = None"
  shows "\<exists>upd w1.
        IncidentRepository_UpdateStatus w (Hex (ID inc)) to = (Inr upd, w1)
      \<and> ID upd = ID inc \<and> Status upd = to \<and> upd \<in> set (collection w1)
      \<and> (distinct (map ID (collection w)) \<longrightarrow>
           upd = inc\<lparr>Status := to, UpdatedAt := times w (time_calls w)\<rparr>)
      \<and> (Trim email '' '' = [] \<longrightarrow>
           IncidentService_UpdateIncidentStatus vf w ident
               \<lparr>us_Status = to, us_AuthorEmail = email\<rparr>
             = (Inr upd, w1\<lparr>oid_calls := Suc (oid_calls w1)\<rparr>))
      \<and> (Trim email '' '' \<noteq> [] \<and> \<not> vf email \<longrightarrow>
           IncidentService_UpdateIncidentStatus vf w ident
               \<lparr>us_Status = to, us_AuthorEmail = email\<rparr>
             = (Inl (StatusUpdatedWatcherFailed
                       (InvalidEmail (InvalidEmailFormat ErrBadFormat))), w1))"
proof -
  let ?req = "\<lparr>us_Status = to, us_AuthorEmail = email\<rparr>"
  obtain d0 upd w1 where a:
    "find (\<lambda>x. ID x = ID inc) (collection w) = Some d0"
    "upd = d0\<lparr>Status := to, UpdatedAt := times w (time_calls w)\<rparr>"
    "IncidentRepository_UpdateStatus w (Hex (ID inc)) to = (Inr upd, w1)"
    "ID upd = ID inc" "Status upd = to" "upd \<in> set (collection w1)"
    "Trim email '' '' = [] \<longrightarrow>
          IncidentService_UpdateIncidentStatus vf w ident ?req
            = (Inr upd, w1\<lparr>oid_calls := Suc (oid_calls w1)\<rparr>)"
    "Trim email '' '' \<noteq> [] \<longrightarrow>
          (\<forall>r2 w2.
             IncidentService_AddWatcherToIncident vf w1 ident \<lparr>Email = email\<rparr> = (r2, w2) \<longrightarrow>
             IncidentService_UpdateIncidentStatus vf w ident ?req
               = (case r2 of
                    Inl err \<Rightarrow> (Inl (StatusUpdatedWatcherFailed err), w2)
                  | Inr _ \<Rightarrow> (Inr upd, w2\<lparr>oid_calls := Suc (oid_calls w2)\<rparr>)))"
    "\<not> vf email \<longrightarrow>
          IncidentService_AddWatcherToIncident vf w1 ident \<lparr>Email = email\<rparr>
            = (Inl (InvalidEmail (InvalidEmailFormat ErrBadFormat)), w1)"
    using UpdateStatus_outcomes[OF valid found allowed, of email vf] by blast
  have same: "distinct (map ID (collection w)) \<longrightarrow>
                  upd = inc\<lparr>Status := to, UpdatedAt := times w (time_calls w)\<rparr>"
    using find_distinct[of ID "collection w" inc] GetByID_in_collection[OF found] a(1,2)
    by auto
  have ill: "IncidentService_UpdateIncidentStatus vf w ident ?req
                    = (Inl (StatusUpdatedWatcherFailed
                              (InvalidEmail (InvalidEmailFormat ErrBadFormat))), w1)"
    if "Trim email '' '' \<noteq> []" "\<not> vf email"
    using a(8,9) that by simp
  show ?thesis
    using a(3-7) same ill by blast
qed

text \<open>
  Claim C1, as the code has it. For an incident found under the caller's identifier, with
  current status \<open>from\<close> and a requested status \<open>to\<close>, both among the four statuses:
  when \<open>(from, to)\<close> is no row of the transition table (every self-transition included)
  \<open>UpdateIncidentStatus\<close> fails with the invalid-transition error and leaves the world
  as it was, whatever the author email. When it is a row, the repository writes the new
  status under the incident's storage id, and then: with a blank author email (empty, or
  spaces only) the call returns the updated incident; with an author email that is not
  blank and does not pass the address test it returns the
  "status updated but failed to add watcher" error around the invalid-email error. In
  both cases the collection is the one the status write left, with the updated incident
  in it. An author email that passes the address test is left out.
\<close>

theorem UpdateStatus_follows_transition_table:
  assumes found: "IncidentRepository_GetByID w ident = Inr inc"
    and "from": "Status inc \<in> set ValidStatuses"
    and to: "to \<in> set ValidStatuses"
  shows "((Status inc, to) \<notin> spec_transition_table \<longrightarrow>
            IncidentService_UpdateIncidentStatus vf w ident
                \<lparr>us_Status = to, us_AuthorEmail = email\<rparr>
              = (Inl (InvalidStatusTransition (CannotTransition (Status inc) to)), w))
       \<and> ((Status inc, to) \<in> spec_transition_table \<longrightarrow>
            (\<exists>upd w1.
                 IncidentRepository_UpdateStatus w (Hex (ID inc)) to = (Inr upd, w1)
               \<and> ID upd = ID inc \<and> Status upd = to \<and> upd \<in> set (collection w1)
               \<and> (distinct (map ID (collection w)) \<longrightarrow>
                    upd = inc\<lparr>Status := to, UpdatedAt := times w (time_calls w)\<rparr>)
               \<and> (Trim email '' '' = [] \<longrightarrow>
                    IncidentService_UpdateIncidentStatus vf w ident
                        \<lparr>us_Status = to, us_AuthorEmail = email\<rparr>
                      = (Inr upd, w1\<lparr>oid_calls := Suc (oid_calls w1)\<rparr>))
               \<and> (Trim email '' '' \<noteq> [] \<and> \<not> vf email \<longrightarrow>
                    IncidentService_UpdateIncidentStatus vf w ident
                        \<lparr>us_Status = to, us_AuthorEmail = email\<rparr>
                      = (Inl (StatusUpdatedWatcherFailed
                                (InvalidEmail (InvalidEmailFormat ErrBadFormat))), w1))))"
proof -
  have valid: "IncidentStatus_IsValid to"
    using to by (simp add: IncidentStatus_IsValid_def list_ex_iff)
  have vt: "validateStatusTransition (Status inc) to =
     (if (Status inc, to) \<in> spec_transition_table then None
      else Some (CannotTransition (Status inc) to))"
    by (rule validateStatusTransition_table[OF "from" to])
  have rejected: "(Status inc, to) \<notin> spec_transition_table \<Longrightarrow>
      IncidentService_UpdateIncidentStatus vf w ident \<lparr>us_Status = to, us_AuthorEmail = email\<rparr>
        = (Inl (InvalidStatusTransition (CannotTransition (Status inc) to)), w)"
    using valid found vt by (simp add: IncidentService_UpdateIncidentStatus_def)
  have allowed: "(Status inc, to) \<in> spec_transition_table \<Longrightarrow>
      validateStatusTransition (Status inc) to = None"
    using vt by simp
  show ?thesis
    using rejected UpdateStatus_by_key[OF valid found allowed, of email vf] by blast
qed

lemma example_GetByID: "IncidentRepository_GetByID example_world ''1'' = Inr example_incident"
  by (simp add: IncidentRepository_GetByID_def example_world_def example_incident_def
      Atoi_def decimal_def isDigit_def FindOne_def)

lemma example_Open_Closed: "(Open, Closed) \<in> spec_transition_table"
  by (simp add: spec_transition_table_def)

lemma example_status_write:
  "IncidentRepository_UpdateStatus example_world (Hex (ID example_incident)) Closed
     = (Inr example_closed, example_world_closed)"
  by (simp add: IncidentRepository_UpdateStatus_def ObjectIDFromHex_Hex Now_def
      example_world_def example_closed_def example_world_closed_def)

lemma example_statuses:
  "Status example_incident = Open"
  "Status example_incident \<in> set ValidStatuses"
  "Open \<in> set ValidStatuses" "Closed \<in> set ValidStatuses"
  "(Open, Closed) \<in> spec_transition_table"
  "(Open, Open) \<notin> spec_transition_table"
  "IncidentStatus_IsValid Closed"
  "validateStatusTransition (Status example_incident) Closed = None"
  by (simp_all add: example_incident_def ValidStatuses_def spec_transition_table_def
      IncidentStatus_IsValid_def validateStatusTransition_def allowedTransitions_def
      Open_def InProgress_def Resolved_def Closed_def)

lemma example_authors:
  "Trim [] '' '' = []" "Trim '' '' '' '' = []" "'' '' \<noteq> []"
  "Trim ''not-an-email'' '' '' \<noteq> []" "\<not> example_validFormat ''not-an-email''"
  "\<not> example_validFormat '' ''" "example_validFormat ''a@b.com''"
  by (simp_all add: Trim_def example_validFormat_def)

theorem UpdateStatus_follows_transition_table_witness:
  "IncidentRepository_GetByID example_world ''1'' = Inr example_incident
   \<and> Status example_incident = Open
   \<and> Open \<in> set ValidStatuses \<and> Closed \<in> set ValidStatuses
   \<and> (Open, Closed) \<in> spec_transition_table
   \<and> Trim [] '' '' = []
   \<and> IncidentService_UpdateIncidentStatus example_validFormat example_world ''1''
         \<lparr>us_Status = Closed, us_AuthorEmail = []\<rparr>
       = (Inr example_closed, example_world_closed\<lparr>oid_calls := 1\<rparr>)
   \<and> Trim ''not-an-email'' '' '' \<noteq> [] \<and> \<not> example_validFormat ''not-an-email''
   \<and> IncidentService_UpdateIncidentStatus example_validFormat example_world ''1''
         \<lparr>us_Status = Closed, us_AuthorEmail = ''not-an-email''\<rparr>
       = (Inl (StatusUpdatedWatcherFailed (InvalidEmail (InvalidEmailFormat ErrBadFormat))),
          example_world_closed)
   \<and> example_closed \<in> set (collection example_world_closed)
   \<and> Status example_closed = Closed
   \<and> (Open, Open) \<notin> spec_transition_table
   \<and> IncidentService_UpdateIncidentStatus example_validFormat example_world ''1''
         \<lparr>us_Status = Open, us_AuthorEmail = ''a@b.com''\<rparr>
       = (Inl (InvalidStatusTransition (CannotTransition Open Open)), example_world)"
proof -
  have oc: "Suc (oid_calls example_world_closed) = 1"
    by (simp add: example_world_closed_def example_world_def)
  have stored: "example_closed \<in> set (collection example_world_closed)"
      "Status example_closed = Closed"
    by (simp_all add: example_world_closed_def example_closed_def)
  have blank: "IncidentService_UpdateIncidentStatus example_validFormat example_world ''1''
         \<lparr>us_Status = Closed, us_AuthorEmail = []\<rparr>
       = (Inr example_closed, example_world_closed\<lparr>oid_calls := 1\<rparr>)"
    using UpdateStatus_follows_transition_table [OF example_GetByID example_statuses(2,4),
        of example_validFormat "[]"] example_statuses(1,5) example_authors(1)
      example_status_write oc
    by auto
  have ill: "IncidentService_UpdateIncidentStatus example_validFormat example_world ''1''
         \<lparr>us_Status = Closed, us_AuthorEmail = ''not-an-email''\<rparr>
       = (Inl (StatusUpdatedWatcherFailed (InvalidEmail (InvalidEmailFormat ErrBadFormat))),
          example_world_closed)"
    using UpdateStatus_follows_transition_table [OF example_GetByID example_statuses(2,4),
        of example_validFormat "''not-an-email''"] example_statuses(1,5) example_authors(4,5)
      example_status_write
    by auto
  have rejected: "IncidentService_UpdateIncidentStatus example_validFormat example_world ''1''
         \<lparr>us_Status = Open, us_AuthorEmail = ''a@b.com''\<rparr>
       = (Inl (InvalidStatusTransition (CannotTransition Open Open)), example_world)"
    using UpdateStatus_follows_transition_table [OF example_GetByID example_statuses(2,3),
        of example_validFormat "''a@b.com''"] example_statuses(1,6)
    by simp
  show ?thesis
    using example_GetByID example_statuses example_authors stored blank ill rejected by simp
qed

text \<open>
  The claim as written fails: \<open>(open, closed)\<close> is a row of the table, and with an author
  email that is not an address the call returns an error after the status was written.
\<close>

theorem UpdateStatus_listed_pair_counterexample:
  "IncidentRepository_GetByID example_world ''1'' = Inr example_incident
   \<and> Status example_incident = Open
   \<and> (Open, Closed) \<in> spec_transition_table
   \<and> fst (IncidentService_UpdateIncidentStatus example_validFormat example_world ''1''
            \<lparr>us_Status = Closed, us_AuthorEmail = ''not-an-email''\<rparr>)
       = Inl (StatusUpdatedWatcherFailed (InvalidEmail (InvalidEmailFormat ErrBadFormat)))"
proof -
  have st: "Status example_incident = Open"
    by (simp add: example_incident_def)
  have vt: "validateStatusTransition Open Closed = None"
    by (simp add: validateStatusTransition_def allowedTransitions_def
        Open_def InProgress_def Resolved_def Closed_def)
  have valid: "IncidentStatus_IsValid Closed"
    by (simp add: IncidentStatus_IsValid_def ValidStatuses_def)
  have trim: "Trim ''not-an-email'' '' '' \<noteq> []"
    by (simp add: Trim_def)
  have nv: "\<not> example_validFormat ''not-an-email''"
    by (simp add: example_validFormat_def)
  have upd: "IncidentRepository_UpdateStatus example_world (Hex (ID example_incident)) Closed
      = (Inr (example_incident\<lparr>Status := Closed, UpdatedAt := 10\<rparr>),
         example_world\<lparr>time_calls := 1,
           collection := [example_incident\<lparr>Status := Closed, UpdatedAt := 10\<rparr>]\<rparr>)"
    by (simp add: IncidentRepository_UpdateStatus_def ObjectIDFromHex_Hex Now_def
        example_world_def)
  have get1: "IncidentRepository_GetByID
       (example_world\<lparr>time_calls := 1,
           collection := [example_incident\<lparr>Status := Closed, UpdatedAt := 10\<rparr>]\<rparr>) ''1''
      = Inr (example_incident\<lparr>Status := Closed, UpdatedAt := 10\<rparr>)"
    by (simp add: IncidentRepository_GetByID_def example_incident_def
      Atoi_def decimal_def isDigit_def FindOne_def)
  show ?thesis
    using example_GetByID st example_Open_Closed vt valid trim nv upd get1
    by (simp add: IncidentService_UpdateIncidentStatus_def
        IncidentService_AddWatcherToIncident_def validateEmail_def)
qed

section \<open>Partial failure of the chained watcher add\<close>

text \<open>
  Claim C8, as the code has it. When the requested status is valid, the incident is found
  and the transition is allowed, the repository writes the new status first. The watcher
  add is chained when the author email is not blank, that is, not empty once the spaces
  around it are trimmed. If it then returns an error, \<open>UpdateIncidentStatus\<close> returns
  that error wrapped as "status updated but failed to add watcher", no incident, and the
  collection as the status write left it: the updated incident is still stored. An
  author email that does not pass the address test is one such failure. With a blank
  author email, one of spaces only included, no watcher add is run: the call returns the
  updated incident and no watch list has changed.
\<close>

theorem UpdateStatus_partial_failure:
  assumes valid: "IncidentStatus_IsValid to"
    and found: "IncidentRepository_GetByID w ident = Inr inc"
    and allowed: "validateStatusTransition (Status inc) to = None"
  shows "\<exists>upd w1. IncidentRepository_UpdateStatus w (Hex (ID inc)) to = (Inr upd, w1)
      \<and> ID upd = ID inc \<and> Status upd = to \<and> upd \<in> set (collection w1)
      \<and> (Trim email '' '' \<noteq> [] \<longrightarrow>
            (\<forall>err w2.
               IncidentService_AddWatcherToIncident vf w1 ident \<lparr>Email = email\<rparr> = (Inl err, w2) \<longrightarrow>
               IncidentService_UpdateIncidentStatus vf w ident
                   \<lparr>us_Status = to, us_AuthorEmail = email\<rparr>
                 = (Inl (StatusUpdatedWatcherFailed err), w2)
               \<and> collection w2 = collection w1)
          \<and> (\<not> vf email \<longrightarrow>
               IncidentService_UpdateIncidentStatus vf w ident
                   \<lparr>us_Status = to, us_AuthorEmail = email\<rparr>
                 = (Inl (StatusUpdatedWatcherFailed
                           (InvalidEmail (InvalidEmailFormat ErrBadFormat))), w1)))
      \<and> (Trim email '' '' = [] \<longrightarrow>
            IncidentService_UpdateIncidentStatus vf w ident
                \<lparr>us_Status = to, us_AuthorEmail = email\<rparr>
              = (Inr upd, w1\<lparr>oid_calls := Suc (oid_calls w1)\<rparr>)
          \<and> map WatchList (collection w1) = map WatchList (collection w))"
proof -
  let ?req = "\<lparr>us_Status = to, us_AuthorEmail = email\<rparr>"
  obtain d0 upd w1 where a:
    "IncidentRepository_UpdateStatus w (Hex (ID inc)) to = (Inr upd, w1)"
    "ID upd = ID inc" "Status upd = to" "upd \<in> set (collection w1)"
    "map WatchList (collection w1) = map WatchList (collection w)"
    "Trim email '' '' = [] \<longrightarrow>
          IncidentService_UpdateIncidentStatus vf w ident ?req
            = (Inr upd, w1\<lparr>oid_calls := Suc (oid_calls w1)\<rparr>)"
    "Trim email '' '' \<noteq> [] \<longrightarrow>
          (\<forall>r2 w2.
             IncidentService_AddWatcherToIncident vf w1 ident \<lparr>Email = email\<rparr> = (r2, w2) \<longrightarrow>
             IncidentService_UpdateIncidentStatus vf w ident ?req
               = (case r2 of
                    Inl err \<Rightarrow> (Inl (StatusUpdatedWatcherFailed err), w2)
                  | Inr _ \<Rightarrow> (Inr upd, w2\<lparr>oid_calls := Suc (oid_calls w2)\<rparr>)))"
    "\<not> vf email \<longrightarrow>
          IncidentService_AddWatcherToIncident vf w1 ident \<lparr>Email = email\<rparr>
            = (Inl (InvalidEmail (InvalidEmailFormat ErrBadFormat)), w1)"
    using UpdateStatus_outcomes[OF valid found allowed, of email vf] by blast
  have part: "IncidentService_UpdateIncidentStatus vf w ident ?req
              = (Inl (StatusUpdatedWatcherFailed err), w2) \<and> collection w2 = collection w1"
    if author: "Trim email '' '' \<noteq> []"
      and f: "IncidentService_AddWatcherToIncident vf w1 ident \<lparr>Email = email\<rparr> = (Inl err, w2)"
    for err w2
    using a(7) author f svc_AddWatcher_failed[OF f] by simp
  have ill: "IncidentService_UpdateIncidentStatus vf w ident ?req
                 = (Inl (StatusUpdatedWatcherFailed
                           (InvalidEmail (InvalidEmailFormat ErrBadFormat))), w1)"
    if "Trim email '' '' \<noteq> []" "\<not> vf email"
    using a(7,8) that by simp
  show ?thesis
    using a(1-6) part ill by blast
qed

theorem UpdateStatus_partial_failure_witness:
  "IncidentStatus_IsValid Closed
   \<and> IncidentRepository_GetByID example_world ''1'' = Inr example_incident
   \<and> validateStatusTransition (Status example_incident) Closed = None
   \<and> IncidentRepository_UpdateStatus example_world (Hex (ID example_incident)) Closed
       = (Inr example_closed, example_world_closed)
   \<and> Status example_closed = Closed
   \<and> example_closed \<in> set (collection example_world_closed)
   \<and> Trim ''not-an-email'' '' '' \<noteq> []
   \<and> IncidentService_AddWatcherToIncident example_validFormat example_world_closed ''1''
         \<lparr>Email = ''not-an-email''\<rparr>
       = (Inl (InvalidEmail (InvalidEmailFormat ErrBadFormat)), example_world_closed)
   \<and> IncidentService_UpdateIncidentStatus example_validFormat example_world ''1''
         \<lparr>us_Status = Closed, us_AuthorEmail = ''not-an-email''\<rparr>
       = (Inl (StatusUpdatedWatcherFailed (InvalidEmail (InvalidEmailFormat ErrBadFormat))),
          example_world_closed)
   \<and> Trim '' '' '' '' = []
   \<and> IncidentService_UpdateIncidentStatus example_validFormat example_world ''1''
         \<lparr>us_Status = Closed, us_AuthorEmail = '' ''\<rparr>
       = (Inr example_closed, example_world_closed\<lparr>oid_calls := 1\<rparr>)"
proof -
  have oc: "Suc (oid_calls example_world_closed) = 1"
    by (simp add: example_world_closed_def example_world_def)
  have stored: "example_closed \<in> set (collection example_world_closed)"
      "Status example_closed = Closed"
    by (simp_all add: example_world_closed_def example_closed_def)
  have get1: "IncidentRepository_GetByID example_world_closed ''1'' = Inr example_closed"
    by (simp add: IncidentRepository_GetByID_def example_world_closed_def example_closed_def
        example_incident_def Atoi_def decimal_def isDigit_def FindOne_def)
  have add: "IncidentService_AddWatcherToIncident example_validFormat example_world_closed ''1''
         \<lparr>Email = ''not-an-email''\<rparr>
       = (Inl (InvalidEmail (InvalidEmailFormat ErrBadFormat)), example_world_closed)"
    using get1 example_authors(5)
    by (simp add: IncidentService_AddWatcherToIncident_def validateEmail_def)
  have ill: "IncidentService_UpdateIncidentStatus example_validFormat example_world ''1''
         \<lparr>us_Status = Closed, us_AuthorEmail = ''not-an-email''\<rparr>
       = (Inl (StatusUpdatedWatcherFailed (InvalidEmail (InvalidEmailFormat ErrBadFormat))),
          example_world_closed)"
    using UpdateStatus_partial_failure [OF example_statuses(7) example_GetByID
        example_statuses(8), of "''not-an-email''" example_validFormat]
      example_authors(4) example_status_write add
    by auto
  have blank: "IncidentService_UpdateIncidentStatus example_validFormat example_world ''1''
         \<lparr>us_Status = Closed, us_AuthorEmail = '' ''\<rparr>
       = (Inr example_closed, example_world_closed\<lparr>oid_calls := 1\<rparr>)"
    using UpdateStatus_partial_failure [OF example_statuses(7) example_GetByID
        example_statuses(8), of "'' ''" example_validFormat]
      example_authors(2) example_status_write oc
    by auto
  show ?thesis
    using example_statuses(7,8) example_GetByID example_status_write stored
      example_authors(2,4) add ill blank
    by simp
qed

text \<open>
  The claim as written fails: an author email of one space is not empty, and the watcher
  add would fail on it, yet no watcher add is run and the call returns the updated
  incident with an empty watch list.
\<close>

theorem blank_author_runs_no_watcher_add_counterexample:
  "'' '' \<noteq> ([] :: string)
   \<and> IncidentRepository_GetByID example_world ''1'' = Inr example_incident
   \<and> IncidentRepository_UpdateStatus example_world (Hex (ID example_incident)) Closed
       = (Inr example_closed, example_world_closed)
   \<and> IncidentService_AddWatcherToIncident example_validFormat example_world_closed ''1''
         \<lparr>Email = '' ''\<rparr>
       = (Inl (InvalidEmail (InvalidEmailFormat ErrBadFormat)), example_world_closed)
   \<and> IncidentService_UpdateIncidentStatus example_validFormat example_world ''1''
         \<lparr>us_Status = Closed, us_AuthorEmail = '' ''\<rparr>
       = (Inr example_closed, example_world_closed\<lparr>oid_calls := 1\<rparr>)
   \<and> WatchList example_closed = []"
proof -
  have get1: "IncidentRepository_GetByID example_world_closed ''1'' = Inr example_closed"
    by (simp add: IncidentRepository_GetByID_def example_world_closed_def example_closed_def
        example_incident_def Atoi_def decimal_def isDigit_def FindOne_def)
  have add: "IncidentService_AddWatcherToIncident example_validFormat example_world_closed ''1''
         \<lparr>Email = '' ''\<rparr>
       = (Inl (InvalidEmail (InvalidEmailFormat ErrBadFormat)), example_world_closed)"
    using get1 example_authors(6)
    by (simp add: IncidentService_AddWatcherToIncident_def validateEmail_def)
  have res: "IncidentService_UpdateIncidentStatus example_validFormat example_world ''1''
         \<lparr>us_Status = Closed, us_AuthorEmail = '' ''\<rparr>
       = (Inr example_closed, example_world_closed\<lparr>oid_calls := 1\<rparr>)"
    using example_GetByID example_statuses(7,8) example_status_write example_authors(2)
    by (simp add: IncidentService_UpdateIncidentStatus_def NewObjectID_def Let_def
        example_world_closed_def example_world_def)
  have wl: "WatchList example_closed = []"
    by (simp add: example_closed_def example_incident_def)
  show ?thesis
    using example_GetByID example_status_write add res wl by simp
qed

section \<open>Creating an incident\<close>

lemma newNotes_eq:
  "newNotes ns w =
     (map (\<lambda>(i, note). \<lparr>n_ID = oids w (oid_calls w + i), n_Content = n_Content note,
                           n_CreatedAt = times w (time_calls w + i),
                           n_AuthorEmail = n_AuthorEmail note, n_Type = []\<rparr>) (enumerate 0 ns),
      w\<lparr>oid_calls := oid_calls w + length ns, time_calls := time_calls w + length ns\<rparr>)"
proof (induction ns arbitrary: w)
  case Nil
  then show ?case by simp
next
  case (Cons n rest)
  show ?case
    by (simp add: Cons NewObjectID_def Now_def enumerate_Suc_eq[of 0] split_def comp_def)
qed

lemma newNotes_length: "length (fst (newNotes ns w)) = length ns"
  by (simp add: newNotes_eq)

lemma newNotes_nth:
  "i < length ns \<Longrightarrow>
   fst (newNotes ns w) ! i =
     \<lparr>n_ID = oids w (oid_calls w + i), n_Content = n_Content (ns ! i),
      n_CreatedAt = times w (time_calls w + i),
      n_AuthorEmail = n_AuthorEmail (ns ! i), n_Type = []\<rparr>"
  by (simp add: newNotes_eq nth_enumerate_eq)

lemma FindOneMaxKey_None: "FindOneMaxKey ds = None \<longleftrightarrow> ds = []"
  by (induction ds) (auto split: option.splits)

lemma FindOneMaxKey_Some:
  "FindOneMaxKey ds = Some m \<Longrightarrow>
   m \<in> set ds \<and> (\<forall>d\<in>set ds. sint (IncidentKey d) \<le> sint (IncidentKey m))"
proof (induction ds arbitrary: m)
  case Nil
  then show ?case by simp
next
  case (Cons a ds)
  show ?case
  proof (cases "FindOneMaxKey ds")
    case None
    then have "ds = []" by (simp add: FindOneMaxKey_None)
    then show ?thesis using Cons.prems by simp
  next
    case (Some m')
    then show ?thesis using Cons.IH[OF Some] Cons.prems
      by (auto split: if_splits)
  qed
qed

lemma FindOneMaxKey_Max:
  assumes "FindOneMaxKey ds = Some m"
  shows "sint (IncidentKey m) = Max (sint ` IncidentKey ` set ds)"
proof -
  have "m \<in> set ds" "\<forall>d\<in>set ds. sint (IncidentKey d) \<le> sint (IncidentKey m)"
    using FindOneMaxKey_Some[OF assms] by auto
  then show ?thesis
    by (intro Max_eqI[symmetric]) auto
qed

lemma CreateIncident_ok:
  assumes sev: "IncidentSeverity_IsValid (cr_Severity req)"
    and mail: "Trim (cr_AuthorEmail req) '' '' \<noteq> [] \<longrightarrow> validFormat (cr_AuthorEmail req)"
    and fresh: "oids w (oid_calls w + length (cr_Notes req)) \<notin> ID ` set (collection w)"
    and key: "IncidentRepository_GetNextIncidentKey w = Inr nextKey"
  shows "let inc =
        \<lparr>ID = oids w (oid_calls w + length (cr_Notes req)), IncidentKey = nextKey,
         Title = cr_Title req, Severity = cr_Severity req, Status = Open,
         CreatedAt = times w (time_calls w + length (cr_Notes req)),
         UpdatedAt = times w (time_calls w + length (cr_Notes req)),
         Notes = fst (newNotes (cr_Notes req) w),
         WatchList = (if Trim (cr_AuthorEmail req) '' '' \<noteq> []
                      then [\<lparr>Email = cr_AuthorEmail req\<rparr>] else []),
         CreatedBy = cr_AuthorEmail req,
         Description = cr_Description req, Assignee = cr_Assignee req\<rparr>
     in IncidentService_CreateIncident validFormat w req =
           (Inr inc,
            w\<lparr>collection := collection w @ [inc],
              oid_calls := oid_calls w + length (cr_Notes req) + 2,
              time_calls := time_calls w + length (cr_Notes req) + 1\<rparr>)"
proof -
  let ?n = "length (cr_Notes req)"
  let ?w1 = "w\<lparr>oid_calls := oid_calls w + ?n, time_calls := time_calls w + ?n\<rparr>"
  define ns where "ns = fst (newNotes (cr_Notes req) w)"
  have nn: "newNotes (cr_Notes req) w = (ns, ?w1)"
    by (simp add: ns_def newNotes_eq)
  have key1: "IncidentRepository_GetNextIncidentKey ?w1 = Inr nextKey"
    using key by (simp add: IncidentRepository_GetNextIncidentKey_def)
  have ins: "\<not> list_ex (\<lambda>d'. ID d' = oids w (oid_calls w + ?n)) (collection w)"
    using fresh by (force simp: list_ex_iff)
  show ?thesis
  proof (cases "Trim (cr_AuthorEmail req) '' '' \<noteq> []")
    case True
    then have "validFormat (cr_AuthorEmail req)" using mail by simp
    then show ?thesis
      using True sev key1 ins
      by (simp add: IncidentService_CreateIncident_def validateEmail_def nn
          IncidentRepository_Create_def Now_def NewObjectID_def InsertOne_def Let_def)
  next
    case False
    then show ?thesis
      using sev key1 ins
      by (simp add: IncidentService_CreateIncident_def validateEmail_def nn
          IncidentRepository_Create_def Now_def NewObjectID_def InsertOne_def Let_def)
  qed
qed


lemma sint_succ: "sint (k :: go_int) < 2 ^ 63 - 1 \<Longrightarrow> sint (k + 1) = sint k + 1"
proof -
  assume a: "sint k < 2 ^ 63 - 1"
  have lo: "- (2 ^ 63) \<le> sint k" using sint_ge[of k] by simp
  have "sint (k + 1) = signed_take_bit 63 (sint k + 1)"
    by (simp add: sint_word_ariths)
  also have "\<dots> = sint k + 1"
    by (rule signed_take_bit_int_eq_self) (use a lo in simp_all)
  finally show ?thesis .
qed

lemma GetNextIncidentKey_total:
  "\<exists>k. IncidentRepository_GetNextIncidentKey w = Inr k"
  by (simp add: IncidentRepository_GetNextIncidentKey_def split: option.splits)

lemma GetNextIncidentKey_empty:
  "collection w = [] \<Longrightarrow> IncidentRepository_GetNextIncidentKey w = Inr 1"
  by (simp add: IncidentRepository_GetNextIncidentKey_def)

lemma GetNextIncidentKey_nonempty:
  assumes "collection w \<noteq> []"
  shows "\<exists>m\<in>set (collection w).
           sint (IncidentKey m) = Max (sint ` IncidentKey ` set (collection w))
         \<and> IncidentRepository_GetNextIncidentKey w = Inr (IncidentKey m + 1)"
proof -
  obtain m where m: "FindOneMaxKey (collection w) = Some m"
    using assms FindOneMaxKey_None[of "collection w"] by (cases "FindOneMaxKey (collection w)") auto
  have "m \<in> set (collection w)" using FindOneMaxKey_Some[OF m] by simp
  then show ?thesis
    using m FindOneMaxKey_Max[OF m]
    by (auto simp: IncidentRepository_GetNextIncidentKey_def)
qed

text \<open>
  Claim C2. A creation request is valid when its severity is one of the four and its
  author email is blank or passes the address test. For every valid request, given that
  the id the world hands out for the incident is not yet in the collection (the store
  refuses a duplicate \<open>_id\<close>), \<open>CreateIncident\<close> returns an incident with status
  \<open>open\<close> (the request has no status field), with the id just generated, which no stored
  incident has, with the key \<open>GetNextIncidentKey\<close> computed, which no stored incident has
  as long as no stored key is the greatest \<open>int\<close>, and with \<open>CreatedAt\<close> equal to
  \<open>UpdatedAt\<close>; the incident is appended to the collection.
\<close>

theorem CreateIncident_result:
  assumes sev: "IncidentSeverity_IsValid (cr_Severity req)"
    and mail: "Trim (cr_AuthorEmail req) '' '' \<noteq> [] \<longrightarrow> validFormat (cr_AuthorEmail req)"
    and fresh: "oids w (oid_calls w + length (cr_Notes req)) \<notin> ID ` set (collection w)"
  shows "\<exists>inc w'. IncidentService_CreateIncident validFormat w req = (Inr inc, w')
      \<and> Status inc = Open
      \<and> ID inc = oids w (oid_calls w + length (cr_Notes req))
      \<and> ID inc \<notin> ID ` set (collection w)
      \<and> IncidentRepository_GetNextIncidentKey w = Inr (IncidentKey inc)
      \<and> ((\<forall>d\<in>set (collection w). sint (IncidentKey d) < 2 ^ 63 - 1) \<longrightarrow>
           IncidentKey inc \<notin> IncidentKey ` set (collection w))
      \<and> CreatedAt inc = UpdatedAt inc
      \<and> collection w' = collection w @ [inc]"
proof -
  obtain k where k: "IncidentRepository_GetNextIncidentKey w = Inr k"
    using GetNextIncidentKey_total by blast
  have newkey: "k \<notin> IncidentKey ` set (collection w)"
    if small: "\<forall>d\<in>set (collection w). sint (IncidentKey d) < 2 ^ 63 - 1"
  proof (cases "collection w = []")
    case True
    then show ?thesis by simp
  next
    case False
    obtain m where m: "m \<in> set (collection w)"
        "sint (IncidentKey m) = Max (sint ` IncidentKey ` set (collection w))"
        "IncidentRepository_GetNextIncidentKey w = Inr (IncidentKey m + 1)"
      using GetNextIncidentKey_nonempty[OF False] by blast
    have km: "sint k = sint (IncidentKey m) + 1"
      using k m(3) sint_succ[of "IncidentKey m"] small m(1) by simp
    show ?thesis
    proof
      assume "k \<in> IncidentKey ` set (collection w)"
      then obtain d where d: "d \<in> set (collection w)" "k = IncidentKey d" by auto
      have "sint (IncidentKey d) \<le> Max (sint ` IncidentKey ` set (collection w))"
        using d(1) by (intro Max_ge) auto
      then show False using km d(2) m(2) by simp
    qed
  qed
  show ?thesis
    using CreateIncident_ok[where validFormat=validFormat and req=req and w=w, OF sev mail fresh k] fresh k newkey
    by (simp add: Let_def)
qed

text \<open>
  Claim C7. The key of the created incident is 1 when the collection is empty, and
  otherwise one plus the highest stored key: it is the \<open>int\<close> that \<open>highest + 1\<close>
  gives in Go, which is the integer \<open>highest + 1\<close> as long as the highest key is below the
  greatest \<open>int\<close>.
\<close>

theorem CreateIncident_next_key:
  assumes sev: "IncidentSeverity_IsValid (cr_Severity req)"
    and mail: "Trim (cr_AuthorEmail req) '' '' \<noteq> [] \<longrightarrow> validFormat (cr_AuthorEmail req)"
    and fresh: "oids w (oid_calls w + length (cr_Notes req)) \<notin> ID ` set (collection w)"
  shows "\<exists>inc w'. IncidentService_CreateIncident validFormat w req = (Inr inc, w')
      \<and> (collection w = [] \<longrightarrow> IncidentKey inc = 1)
      \<and> (collection w \<noteq> [] \<longrightarrow>
           IncidentKey inc = word_of_int (Max (sint ` IncidentKey ` set (collection w)) + 1)
         \<and> (Max (sint ` IncidentKey ` set (collection w)) < 2 ^ 63 - 1 \<longrightarrow>
              sint (IncidentKey inc) = Max (sint ` IncidentKey ` set (collection w)) + 1))"
proof -
  obtain k where k: "IncidentRepository_GetNextIncidentKey w = Inr k"
    using GetNextIncidentKey_total by blast
  have e: "collection w = [] \<Longrightarrow> k = 1"
    using k GetNextIncidentKey_empty[of w] by simp
  have n: "k = word_of_int (Max (sint ` IncidentKey ` set (collection w)) + 1)
         \<and> (Max (sint ` IncidentKey ` set (collection w)) < 2 ^ 63 - 1 \<longrightarrow>
              sint k = Max (sint ` IncidentKey ` set (collection w)) + 1)"
    if ne: "collection w \<noteq> []"
  proof -
    obtain m where m: "m \<in> set (collection w)"
        "sint (IncidentKey m) = Max (sint ` IncidentKey ` set (collection w))"
        "IncidentRepository_GetNextIncidentKey w = Inr (IncidentKey m + 1)"
      using GetNextIncidentKey_nonempty[OF ne] by blast
    have k1: "k = IncidentKey m + 1" using k m(3) by simp
    have "word_of_int (sint (IncidentKey m) + 1) = IncidentKey m + 1" by simp
    then show ?thesis
      using k1 m(2) sint_succ[of "IncidentKey m"] by simp
  qed
  have "\<exists>inc w'. IncidentService_CreateIncident validFormat w req = (Inr inc, w')
      \<and> IncidentKey inc = k"
    using CreateIncident_ok[where validFormat=validFormat and req=req and w=w, OF sev mail fresh k]
    by (simp add: Let_def)
  then obtain inc w' where r: "IncidentService_CreateIncident validFormat w req = (Inr inc, w')"
      "IncidentKey inc = k"
    by blast
  show ?thesis
    using r e n by blast
qed

text \<open>
  Claim C10. For every valid creation request, the created incident is stored with one
  note for each note of the request, in order: the note keeps the request's content and
  author email, takes its id from the id generator and its time from the clock (not from
  the request), and its type is the empty string whatever the request said.
\<close>

theorem CreateIncident_notes:
  assumes sev: "IncidentSeverity_IsValid (cr_Severity req)"
    and mail: "Trim (cr_AuthorEmail req) '' '' \<noteq> [] \<longrightarrow> validFormat (cr_AuthorEmail req)"
    and fresh: "oids w (oid_calls w + length (cr_Notes req)) \<notin> ID ` set (collection w)"
  shows "\<exists>inc w'. IncidentService_CreateIncident validFormat w req = (Inr inc, w')
      \<and> inc \<in> set (collection w')
      \<and> length (Notes inc) = length (cr_Notes req)
      \<and> (\<forall>i<length (cr_Notes req).
            n_Content (Notes inc ! i) = n_Content (cr_Notes req ! i)
          \<and> n_AuthorEmail (Notes inc ! i) = n_AuthorEmail (cr_Notes req ! i)
          \<and> n_ID (Notes inc ! i) = oids w (oid_calls w + i)
          \<and> n_CreatedAt (Notes inc ! i) = times w (time_calls w + i)
          \<and> n_Type (Notes inc ! i) = [])"
proof -
  obtain k where k: "IncidentRepository_GetNextIncidentKey w = Inr k"
    using GetNextIncidentKey_total by blast
  show ?thesis
    using CreateIncident_ok[where validFormat=validFormat and req=req and w=w, OF sev mail fresh k]
    by (simp add: Let_def newNotes_length newNotes_nth)
qed


lemma example_request_valid:
  "IncidentSeverity_IsValid (cr_Severity example_request)"
  "Trim (cr_AuthorEmail example_request) '' '' \<noteq> []"
  "example_validFormat (cr_AuthorEmail example_request)"
  by (simp_all add: example_request_def IncidentSeverity_IsValid_def ValidSeverities_def
      Trim_def example_validFormat_def)

lemma example_request_fresh:
  "oids example_world (oid_calls example_world + length (cr_Notes example_request))
     \<notin> ID ` set (collection example_world)"
  "oids empty_world (oid_calls empty_world + length (cr_Notes example_request))
     \<notin> ID ` set (collection empty_world)"
  by (simp_all add: example_request_def example_world_def empty_world_def example_incident_def)

theorem CreateIncident_result_witness:
  "IncidentSeverity_IsValid (cr_Severity example_request)
   \<and> Trim (cr_AuthorEmail example_request) '' '' \<noteq> []
   \<and> example_validFormat (cr_AuthorEmail example_request)
   \<and> oids example_world (oid_calls example_world + length (cr_Notes example_request))
        \<notin> ID ` set (collection example_world)
   \<and> list_all (\<lambda>d. sint (IncidentKey d) < 2 ^ 63 - 1) (collection example_world)
   \<and> (\<exists>inc w'. IncidentService_CreateIncident example_validFormat example_world example_request
                   = (Inr inc, w')
        \<and> Status inc = Open
        \<and> ID inc = 0x65a1b2c3d4e5f60718293a4d
        \<and> IncidentKey inc = 2
        \<and> IncidentKey inc \<notin> IncidentKey ` set (collection example_world)
        \<and> CreatedAt inc = UpdatedAt inc
        \<and> collection w' = [example_incident, inc])"
proof -
  have small: "\<forall>d\<in>set (collection example_world). sint (IncidentKey d) < 2 ^ 63 - 1"
    by (simp add: example_world_def example_incident_def)
  have key: "IncidentRepository_GetNextIncidentKey example_world = Inr 2"
    by (simp add: IncidentRepository_GetNextIncidentKey_def example_world_def
        example_incident_def)
  have oid: "oids example_world (oid_calls example_world + length (cr_Notes example_request))
      = 0x65a1b2c3d4e5f60718293a4d"
    by (simp add: example_world_def example_request_def)
  have coll: "collection example_world = [example_incident]"
    by (simp add: example_world_def)
  show ?thesis
    using CreateIncident_result [of example_request example_validFormat example_world]
      example_request_valid example_request_fresh(1) small key oid coll
    by (auto simp: list_all_iff)
qed

theorem CreateIncident_next_key_witness:
  "IncidentSeverity_IsValid (cr_Severity example_request)
   \<and> Trim (cr_AuthorEmail example_request) '' '' \<noteq> []
   \<and> example_validFormat (cr_AuthorEmail example_request)
   \<and> oids empty_world (oid_calls empty_world + length (cr_Notes example_request))
        \<notin> ID ` set (collection empty_world)
   \<and> collection empty_world = []
   \<and> (\<exists>inc w'. IncidentService_CreateIncident example_validFormat empty_world example_request
                   = (Inr inc, w') \<and> IncidentKey inc = 1)
   \<and> oids example_world (oid_calls example_world + length (cr_Notes example_request))
        \<notin> ID ` set (collection example_world)
   \<and> collection example_world \<noteq> []
   \<and> Max (sint ` IncidentKey ` set (collection example_world)) = 1
   \<and> (\<exists>inc w'. IncidentService_CreateIncident example_validFormat example_world example_request
                   = (Inr inc, w') \<and> IncidentKey inc = 2 \<and> sint (IncidentKey inc) = 2)"
proof -
  have e: "collection empty_world = []"
    by (simp add: empty_world_def)
  have n: "collection example_world \<noteq> []"
      "Max (sint ` IncidentKey ` set (collection example_world)) = 1"
    by (simp_all add: example_world_def example_incident_def)
  have a: "\<exists>inc w'. IncidentService_CreateIncident example_validFormat empty_world example_request
                   = (Inr inc, w') \<and> IncidentKey inc = 1"
    using CreateIncident_next_key [of example_request example_validFormat empty_world]
      example_request_valid example_request_fresh(2) e
    by simp
  have b: "\<exists>inc w'. IncidentService_CreateIncident example_validFormat example_world example_request
                   = (Inr inc, w') \<and> IncidentKey inc = 2 \<and> sint (IncidentKey inc) = 2"
    using CreateIncident_next_key [of example_request example_validFormat example_world]
      example_request_valid example_request_fresh(1) n
    by simp
  show ?thesis
    using example_request_valid example_request_fresh e n a b by simp
qed

theorem CreateIncident_notes_witness:
  "IncidentSeverity_IsValid (cr_Severity example_request)
   \<and> Trim (cr_AuthorEmail example_request) '' '' \<noteq> []
   \<and> example_validFormat (cr_AuthorEmail example_request)
   \<and> oids example_world (oid_calls example_world + length (cr_Notes example_request))
        \<notin> ID ` set (collection example_world)
   \<and> n_Type (cr_Notes example_request ! 0) = Investigation
   \<and> (\<exists>inc w'. IncidentService_CreateIncident example_validFormat example_world example_request
                   = (Inr inc, w')
        \<and> inc \<in> set (collection w')
        \<and> Notes inc =
            [\<lparr>n_ID = 0x65a1b2c3d4e5f60718293a4c,
              n_Content = ''Initial investigation shows connection timeout'',
              n_CreatedAt = 10, n_AuthorEmail = ''john.doe@example.com'', n_Type = []\<rparr>])"
proof -
  have len: "length (cr_Notes example_request) = 1"
    by (simp add: example_request_def)
  have t: "n_Type (cr_Notes example_request ! 0) = Investigation"
      "n_Content (cr_Notes example_request ! 0) = ''Initial investigation shows connection timeout''"
      "n_AuthorEmail (cr_Notes example_request ! 0) = ''john.doe@example.com''"
    by (simp_all add: example_request_def)
  have o: "oids example_world (oid_calls example_world) = 0x65a1b2c3d4e5f60718293a4c"
      "times example_world (time_calls example_world) = 10"
    by (simp_all add: example_world_def)
  obtain inc w' where r:
    "IncidentService_CreateIncident example_validFormat example_world example_request = (Inr inc, w')"
    "inc \<in> set (collection w')" "length (Notes inc) = 1"
    "n_Content (Notes inc ! 0) = ''Initial investigation shows connection timeout''"
    "n_AuthorEmail (Notes inc ! 0) = ''john.doe@example.com''"
    "n_ID (Notes inc ! 0) = 0x65a1b2c3d4e5f60718293a4c"
    "n_CreatedAt (Notes inc ! 0) = 10"
    "n_Type (Notes inc ! 0) = []"
    using CreateIncident_notes [of example_request example_validFormat example_world]
      example_request_valid example_request_fresh(1) len t o
    by auto
  have "Notes inc = [Notes inc ! 0]"
    using r(3) by (cases "Notes inc") auto
  then have "Notes inc =
            [\<lparr>n_ID = 0x65a1b2c3d4e5f60718293a4c,
              n_Content = ''Initial investigation shows connection timeout'',
              n_CreatedAt = 10, n_AuthorEmail = ''john.doe@example.com'', n_Type = []\<rparr>]"
    using r(4-8) by (cases "Notes inc ! 0") simp
  then show ?thesis
    using example_request_valid example_request_fresh(1) t(1) r(1,2) by blast
qed

section \<open>The watch list\<close>

lemma FindOneAndUpdate_find:
  "find flt ds = Some d \<Longrightarrow> (\<And>x. flt (upd x) = flt x) \<Longrightarrow>
   \<exists>ds'. FindOneAndUpdate flt upd ds = Some (upd d, ds') \<and> find flt ds' = Some (upd d)"
proof (induction ds)
  case Nil
  then show ?case by simp
next
  case (Cons a ds)
  then show ?case by (cases "flt a") auto
qed

lemma FindOneAndUpdate_set:
  "FindOneAndUpdate flt upd ds = Some (r, ds') \<Longrightarrow> set ds' \<subseteq> set ds \<union> upd ` set ds"
proof (induction ds arbitrary: r ds')
  case Nil
  then show ?case by simp
next
  case (Cons a ds)
  then show ?case by (cases "flt a") (auto split: option.splits)
qed

lemma count_list_addToSet:
  "count_list xs x \<le> 1 \<Longrightarrow> count_list (addToSet xs x) x = 1"
proof -
  assume a: "count_list xs x \<le> 1"
  show ?thesis
  proof (cases "x \<in> set xs")
    case True
    then have "count_list xs x \<noteq> 0" by (simp add: count_list_0_iff)
    then show ?thesis using a True by (simp add: addToSet_def)
  next
    case False
    then show ?thesis by (simp add: addToSet_def count_list_0_iff)
  qed
qed

lemma addToSet_idem: "addToSet (addToSet xs x) x = addToSet xs x"
  by (simp add: addToSet_def)

lemma addToSet_distinct: "distinct xs \<Longrightarrow> distinct (addToSet xs x)"
  by (simp add: addToSet_def)

lemma repo_AddWatcher_ok:
  assumes parse: "ObjectIDFromHex ident = Inr oid"
    and found: "find (\<lambda>d. ID d = oid) (collection w) = Some d"
  shows "\<exists>docs. IncidentRepository_AddWatcherToIncident w ident x =
           (Inr (d\<lparr>WatchList := addToSet (WatchList d) x, UpdatedAt := times w (time_calls w)\<rparr>),
            w\<lparr>time_calls := Suc (time_calls w), collection := docs\<rparr>)
         \<and> find (\<lambda>d. ID d = oid) docs
             = Some (d\<lparr>WatchList := addToSet (WatchList d) x, UpdatedAt := times w (time_calls w)\<rparr>)"
proof -
  let ?u = "\<lambda>d. d\<lparr>WatchList := addToSet (WatchList d) x, UpdatedAt := times w (time_calls w)\<rparr>"
  obtain docs where docs:
    "FindOneAndUpdate (\<lambda>d. ID d = oid) ?u (collection w) = Some (?u d, docs)"
    "find (\<lambda>d. ID d = oid) docs = Some (?u d)"
    using FindOneAndUpdate_find[OF found, of ?u] by auto
  have "IncidentRepository_AddWatcherToIncident w ident x =
           (Inr (?u d), w\<lparr>time_calls := Suc (time_calls w), collection := docs\<rparr>)"
    using parse docs(1)
    by (simp add: IncidentRepository_AddWatcherToIncident_def Now_def)
  then show ?thesis
    using docs(2) by blast
qed

text \<open>
  The store write is idempotent. For every stored incident, addressed by a string that
  parses to its storage id, whose watch list holds the watcher at most once: the
  repository's \<open>AddWatcherToIncident\<close> called twice with the same watcher succeeds both
  times, the second call leaves the watch list as the first made it, and the stored
  watch list holds the watcher exactly once.
\<close>

lemma AddWatcher_idempotent:
  assumes parse: "ObjectIDFromHex ident = Inr oid"
    and found: "FindOne (\<lambda>d. ID d = oid) (collection w) = Some d"
    and once: "count_list (WatchList d) x \<le> 1"
  shows "\<exists>u1 w1 u2 w2.
        IncidentRepository_AddWatcherToIncident w ident x = (Inr u1, w1)
      \<and> IncidentRepository_AddWatcherToIncident w1 ident x = (Inr u2, w2)
      \<and> FindOne (\<lambda>d. ID d = oid) (collection w2) = Some u2
      \<and> count_list (WatchList u2) x = 1
      \<and> WatchList u2 = WatchList u1
      \<and> WatchList u1 = addToSet (WatchList d) x"
proof -
  let ?u1 = "d\<lparr>WatchList := addToSet (WatchList d) x, UpdatedAt := times w (time_calls w)\<rparr>"
  obtain docs1 where s1:
    "IncidentRepository_AddWatcherToIncident w ident x =
       (Inr ?u1, w\<lparr>time_calls := Suc (time_calls w), collection := docs1\<rparr>)"
    "find (\<lambda>d. ID d = oid) docs1 = Some ?u1"
    using repo_AddWatcher_ok[OF parse found[unfolded FindOne_def], of x] by blast
  let ?w1 = "w\<lparr>time_calls := Suc (time_calls w), collection := docs1\<rparr>"
  have f1: "find (\<lambda>d. ID d = oid) (collection ?w1) = Some ?u1"
    using s1(2) by simp
  let ?u2 = "?u1\<lparr>WatchList := addToSet (WatchList ?u1) x, UpdatedAt := times ?w1 (time_calls ?w1)\<rparr>"
  obtain docs2 where s2:
    "IncidentRepository_AddWatcherToIncident ?w1 ident x =
       (Inr ?u2, ?w1\<lparr>time_calls := Suc (time_calls ?w1), collection := docs2\<rparr>)"
    "find (\<lambda>d. ID d = oid) docs2 = Some ?u2"
    using repo_AddWatcher_ok[OF parse f1, of x] by blast
  let ?w2 = "?w1\<lparr>time_calls := Suc (time_calls ?w1), collection := docs2\<rparr>"
  have a: "FindOne (\<lambda>d. ID d = oid) (collection ?w2) = Some ?u2"
    using s2(2) by (simp add: FindOne_def)
  have b: "count_list (WatchList ?u2) x = 1"
    using once by (simp add: addToSet_idem count_list_addToSet)
  have c: "WatchList ?u2 = WatchList ?u1" "WatchList ?u1 = addToSet (WatchList d) x"
    by (simp_all add: addToSet_idem)
  show ?thesis
    using s1(1) s2(1) a b c by blast
qed


lemma AddWatcher_idempotent_example:
  "ObjectIDFromHex ''65a1b2c3d4e5f60718293a4b'' = Inr 0x65a1b2c3d4e5f60718293a4b
   \<and> FindOne (\<lambda>d. ID d = 0x65a1b2c3d4e5f60718293a4b) (collection example_world)
       = Some example_incident
   \<and> count_list (WatchList example_incident) \<lparr>Email = ''a@b.com''\<rparr> \<le> 1
   \<and> (\<exists>u1 w1 u2 w2.
         IncidentRepository_AddWatcherToIncident example_world ''65a1b2c3d4e5f60718293a4b''
           \<lparr>Email = ''a@b.com''\<rparr> = (Inr u1, w1)
       \<and> IncidentRepository_AddWatcherToIncident w1 ''65a1b2c3d4e5f60718293a4b''
           \<lparr>Email = ''a@b.com''\<rparr> = (Inr u2, w2)
       \<and> FindOne (\<lambda>d. ID d = 0x65a1b2c3d4e5f60718293a4b) (collection w2) = Some u2
       \<and> count_list (WatchList u2) \<lparr>Email = ''a@b.com''\<rparr> = 1
       \<and> WatchList u2 = [\<lparr>Email = ''a@b.com''\<rparr>])"
proof -
  have parse: "ObjectIDFromHex ''65a1b2c3d4e5f60718293a4b'' = Inr 0x65a1b2c3d4e5f60718293a4b"
    by (simp add: ObjectIDFromHex_def fromHexChar_def)
  have found: "FindOne (\<lambda>d. ID d = 0x65a1b2c3d4e5f60718293a4b) (collection example_world)
       = Some example_incident"
    by (simp add: FindOne_def example_world_def example_incident_def)
  have once: "count_list (WatchList example_incident) \<lparr>Email = ''a@b.com''\<rparr> \<le> 1"
    by (simp add: example_incident_def)
  have wl: "addToSet (WatchList example_incident) \<lparr>Email = ''a@b.com''\<rparr>
      = [\<lparr>Email = ''a@b.com''\<rparr>]"
    by (simp add: example_incident_def addToSet_def)
  show ?thesis
    using AddWatcher_idempotent [OF parse found once] parse found once wl
    by auto
qed

text \<open>
  No watch list the service builds holds a watcher twice: a created incident has at most
  one watcher, \<open>$addToSet\<close> keeps a list without repetition as it is, and the other
  writes leave the watch lists alone.
\<close>

lemma FindOneAndUpdate_all:
  assumes "FindOneAndUpdate flt upd ds = Some (r, ds')"
    and "\<forall>d\<in>set ds. P d" and "\<And>d. P d \<Longrightarrow> P (upd d)"
  shows "\<forall>d\<in>set ds'. P d"
  using FindOneAndUpdate_set[OF assms(1)] assms(2,3) by auto

lemma repo_AddWatcher_keeps_distinct:
  assumes "\<forall>d\<in>set (collection w). distinct (WatchList d)"
    and "IncidentRepository_AddWatcherToIncident w ident x = (r, w')"
  shows "\<forall>d\<in>set (collection w'). distinct (WatchList d)"
proof (cases "ObjectIDFromHex ident")
  case (Inl e)
  then show ?thesis using assms by (simp add: IncidentRepository_AddWatcherToIncident_def)
next
  case (Inr oid)
  let ?u = "\<lambda>d. d\<lparr>WatchList := addToSet (WatchList d) x, UpdatedAt := times w (time_calls w)\<rparr>"
  show ?thesis
  proof (cases "FindOneAndUpdate (\<lambda>d. ID d = oid) ?u (collection w)")
    case None
    then show ?thesis using assms Inr
      by (auto simp: IncidentRepository_AddWatcherToIncident_def Now_def)
  next
    case (Some p)
    obtain u docs where p: "p = (u, docs)" by (cases p)
    have "\<forall>d\<in>set docs. distinct (WatchList d)"
      by (rule FindOneAndUpdate_all[OF Some[unfolded p] assms(1)])
        (simp add: addToSet_distinct)
    then show ?thesis using assms(2) Inr Some p
      by (auto simp: IncidentRepository_AddWatcherToIncident_def Now_def)
  qed
qed

lemma CreateIncident_keeps_distinct:
  assumes "\<forall>d\<in>set (collection w). distinct (WatchList d)"
    and "IncidentService_CreateIncident validFormat w req = (r, w')"
  shows "\<forall>d\<in>set (collection w'). distinct (WatchList d)"
  using assms
  by (auto simp: IncidentService_CreateIncident_def newNotes_eq
      IncidentRepository_GetNextIncidentKey_def IncidentRepository_Create_def
      InsertOne_def Now_def NewObjectID_def Let_def
      split: if_splits option.splits sum.splits prod.splits)


lemma repo_UpdateStatus_watchlists:
  "IncidentRepository_UpdateStatus w ident st = (r, w') \<Longrightarrow>
   map WatchList (collection w') = map WatchList (collection w)"
  by (auto simp: IncidentRepository_UpdateStatus_def Now_def
      split: sum.splits option.splits prod.splits
      dest!: FindOneAndUpdate_map[where f = WatchList])

lemma repo_UpdateSeverity_watchlists:
  "IncidentRepository_UpdateSeverity w ident sev = (r, w') \<Longrightarrow>
   map WatchList (collection w') = map WatchList (collection w)"
  by (auto simp: IncidentRepository_UpdateSeverity_def Now_def
      split: sum.splits option.splits prod.splits
      dest!: FindOneAndUpdate_map[where f = WatchList])

lemma repo_AddNote_watchlists:
  "IncidentRepository_AddNote w ident n = (r, w') \<Longrightarrow>
   map WatchList (collection w') = map WatchList (collection w)"
  by (auto simp: IncidentRepository_AddNote_def Now_def NewObjectID_def
      split: sum.splits option.splits prod.splits
      dest!: FindOneAndUpdate_map[where f = WatchList])

text \<open>
  Claim C9 says that \<open>AddWatcher\<close> called twice with the same well-formed email leaves
  that email exactly once in the watch list. The code does not do this for an incident
  addressed by its key: the service finds the incident under the key 1, accepts the
  email, and hands the key to the repository, whose storage-id parse refuses it. Both
  calls fail, the world stays as it was, and the watch list holds the email zero times.
\<close>

theorem AddWatcher_by_key_adds_nothing:
  "IncidentRepository_GetByID example_world ''1'' = Inr example_incident
   \<and> example_validFormat ''a@b.com''
   \<and> IncidentService_AddWatcherToIncident example_validFormat example_world ''1''
         \<lparr>Email = ''a@b.com''\<rparr>
       = (Inl (FailedAddWatcher (RepoInvalidIncidentID ErrInvalidHex)), example_world)
   \<and> IncidentService_AddWatcherToIncident example_validFormat
         (snd (IncidentService_AddWatcherToIncident example_validFormat example_world ''1''
                 \<lparr>Email = ''a@b.com''\<rparr>))
         ''1'' \<lparr>Email = ''a@b.com''\<rparr>
       = (Inl (FailedAddWatcher (RepoInvalidIncidentID ErrInvalidHex)), example_world)
   \<and> collection example_world = [example_incident]
   \<and> count_list (WatchList example_incident) \<lparr>Email = ''a@b.com''\<rparr> = 0"
proof -
  have hex: "ObjectIDFromHex ''1'' = Inl ErrInvalidHex"
    by (simp add: ObjectIDFromHex_def)
  have one: "IncidentService_AddWatcherToIncident example_validFormat example_world ''1''
         \<lparr>Email = ''a@b.com''\<rparr>
       = (Inl (FailedAddWatcher (RepoInvalidIncidentID ErrInvalidHex)), example_world)"
    using example_GetByID example_authors(7) hex
    by (simp add: IncidentService_AddWatcherToIncident_def validateEmail_def
        IncidentRepository_AddWatcherToIncident_def)
  have coll: "collection example_world = [example_incident]"
    by (simp add: example_world_def)
  have none: "count_list (WatchList example_incident) \<lparr>Email = ''a@b.com''\<rparr> = 0"
    by (simp add: example_incident_def)
  show ?thesis
    using example_GetByID example_authors(7) one coll none by simp
qed

section \<open>Two parsers for one identifier\<close>

lemma hexDecode_Some_all_hex:
  "hexDecode s acc = Some n \<Longrightarrow> \<forall>c\<in>set s. fromHexChar c \<noteq> None"
  by (induction s arbitrary: acc) (auto split: option.splits)

lemma sign_not_hex: "fromHexChar CHR ''+'' = None" "fromHexChar CHR ''-'' = None"
  by (simp_all add: fromHexChar_def)

lemma isDigit_hex: "isDigit c \<Longrightarrow> fromHexChar c \<noteq> None"
  by (simp add: isDigit_def fromHexChar_def)

lemma hexDecode_digits: "list_all isDigit s \<Longrightarrow> hexDecode s acc \<noteq> None"
  by (induction s arbitrary: acc) (auto simp: isDigit_hex split: option.splits)

lemma Atoi_Inr_shape:
  assumes "Atoi s = Inr k"
  shows "s \<noteq> [] \<and> (list_all isDigit s \<or> hd s = CHR ''+'' \<or> hd s = CHR ''-'')"
proof (cases s)
  case Nil
  then show ?thesis using assms by (simp add: Atoi_def)
next
  case (Cons c r)
  then show ?thesis using assms
    by (auto simp: Atoi_def decimal_def Let_def split: option.splits if_splits)
qed

lemma Atoi_digits:
  "Atoi s = Inr k \<Longrightarrow> list_all isDigit s \<Longrightarrow>
   \<exists>n. decimal s = Some n \<and> n < 2 ^ 63 \<and> k = of_nat n"
  by (cases s) (auto simp: Atoi_def decimal_def Let_def isDigit_def split: option.splits if_splits)

lemma digits_Atoi:
  assumes "s \<noteq> []" "list_all isDigit s" "decimal s = Some n" "n < 2 ^ 63"
  shows "Atoi s = Inr (of_nat n)"
proof (cases s)
  case Nil
  then show ?thesis using assms by simp
next
  case (Cons c r)
  then have "isDigit c" using assms(2) by simp
  then have "c \<noteq> CHR ''-''" "c \<noteq> CHR ''+''" by (auto simp: isDigit_def)
  then show ?thesis using Cons assms(3,4) by (simp add: Atoi_def)
qed

text \<open>The identifiers both parsers accept are the strings of 24 decimal digits whose
  value fits an \<open>int\<close>.\<close>

lemma both_parsers_accept_iff:
  "(\<exists>k. Atoi s = Inr k) \<and> (\<exists>oid. ObjectIDFromHex s = Inr oid) \<longleftrightarrow>
   length s = 24 \<and> list_all isDigit s \<and> (\<exists>n. decimal s = Some n \<and> n < 2 ^ 63)"
proof
  assume a: "(\<exists>k. Atoi s = Inr k) \<and> (\<exists>oid. ObjectIDFromHex s = Inr oid)"
  then obtain k oid where k: "Atoi s = Inr k" and o: "ObjectIDFromHex s = Inr oid" by blast
  have len: "length s = 24"
    using o by (auto simp: ObjectIDFromHex_def split: if_splits)
  obtain n where "hexDecode s 0 = Some n"
    using o len by (auto simp: ObjectIDFromHex_def split: option.splits)
  then have hex: "\<forall>c\<in>set s. fromHexChar c \<noteq> None" by (rule hexDecode_Some_all_hex)
  have ne: "s \<noteq> []" using len by auto
  then have "hd s \<in> set s" by simp
  then have "hd s \<noteq> CHR ''+''" "hd s \<noteq> CHR ''-''"
    using hex sign_not_hex by auto
  then have dig: "list_all isDigit s" using Atoi_Inr_shape[OF k] by simp
  show "length s = 24 \<and> list_all isDigit s \<and> (\<exists>n. decimal s = Some n \<and> n < 2 ^ 63)"
    using len dig Atoi_digits[OF k dig] by blast
next
  assume b: "length s = 24 \<and> list_all isDigit s \<and> (\<exists>n. decimal s = Some n \<and> n < 2 ^ 63)"
  then obtain n where n: "decimal s = Some n" "n < 2 ^ 63" by blast
  have ne: "s \<noteq> []" using b by auto
  have "Atoi s = Inr (of_nat n)" using digits_Atoi[OF ne _ n] b by simp
  moreover have "\<exists>oid. ObjectIDFromHex s = Inr oid"
    using b hexDecode_digits[of s 0] by (auto simp: ObjectIDFromHex_def split: option.splits)
  ultimately show "(\<exists>k. Atoi s = Inr k) \<and> (\<exists>oid. ObjectIDFromHex s = Inr oid)" by blast
qed

lemma key_id_hex_parse:
  assumes "Atoi s = Inr k"
  shows "ObjectIDFromHex s = Inl ErrInvalidHex \<longleftrightarrow> \<not> (length s = 24 \<and> list_all isDigit s)"
proof -
  have cases: "ObjectIDFromHex s = Inl ErrInvalidHex \<or> (\<exists>oid. ObjectIDFromHex s = Inr oid)"
    by (auto simp: ObjectIDFromHex_def split: option.splits)
  have "(\<exists>oid. ObjectIDFromHex s = Inr oid) \<longleftrightarrow> length s = 24 \<and> list_all isDigit s"
  proof
    assume "\<exists>oid. ObjectIDFromHex s = Inr oid"
    then show "length s = 24 \<and> list_all isDigit s"
      using both_parsers_accept_iff[of s] assms by blast
  next
    assume b: "length s = 24 \<and> list_all isDigit s"
    then show "\<exists>oid. ObjectIDFromHex s = Inr oid"
      using hexDecode_digits[of s 0] by (auto simp: ObjectIDFromHex_def split: option.splits)
  qed
  then show ?thesis using cases by auto
qed

text \<open>
  Claim C6, as the code has it. An identifier under which the existence check finds an
  incident is rejected by the storage-id parse exactly when it is not a string of 24
  decimal digits. For every such identifier (every key written without padding among
  them: it has at most 20 characters), once the existence check has succeeded, the
  severity write of \<open>UpdateIncidentSeverity\<close> and the store write of the watcher add fail
  with the id-format error, and the world is left as it was.
\<close>

theorem integer_key_fails_storage_id_parse:
  assumes found: "IncidentRepository_GetByID w ident = Inr inc"
  shows "(ObjectIDFromHex ident = Inl ErrInvalidHex
          \<longleftrightarrow> \<not> (length ident = 24 \<and> list_all isDigit ident))
     \<and> (\<not> (length ident = 24 \<and> list_all isDigit ident) \<longrightarrow>
          (IncidentSeverity_IsValid sev \<longrightarrow>
             IncidentService_UpdateIncidentSeverity vf w ident
                 \<lparr>usv_Severity = sev, usv_AuthorEmail = email\<rparr>
               = (Inl (FailedUpdateSeverity (RepoInvalidIDFormat ErrInvalidHex)), w))
        \<and> (vf email \<longrightarrow>
             IncidentService_AddWatcherToIncident vf w ident \<lparr>Email = email\<rparr>
               = (Inl (FailedAddWatcher (RepoInvalidIncidentID ErrInvalidHex)), w)))"
proof -
  obtain k where k: "Atoi ident = Inr k"
    using found by (auto simp: GetByID_Inr)
  have parse: "ObjectIDFromHex ident = Inl ErrInvalidHex
          \<longleftrightarrow> \<not> (length ident = 24 \<and> list_all isDigit ident)"
    by (rule key_id_hex_parse[OF k])
  have sev: "IncidentService_UpdateIncidentSeverity vf w ident
                 \<lparr>usv_Severity = sev, usv_AuthorEmail = email\<rparr>
               = (Inl (FailedUpdateSeverity (RepoInvalidIDFormat ErrInvalidHex)), w)"
    if "ObjectIDFromHex ident = Inl ErrInvalidHex" "IncidentSeverity_IsValid sev"
    using that found
    by (simp add: IncidentService_UpdateIncidentSeverity_def IncidentRepository_UpdateSeverity_def)
  have wat: "IncidentService_AddWatcherToIncident vf w ident \<lparr>Email = email\<rparr>
               = (Inl (FailedAddWatcher (RepoInvalidIncidentID ErrInvalidHex)), w)"
    if "ObjectIDFromHex ident = Inl ErrInvalidHex" "vf email"
    using that found
    by (simp add: IncidentService_AddWatcherToIncident_def validateEmail_def
        IncidentRepository_AddWatcherToIncident_def)
  show ?thesis
    using parse sev wat by blast
qed

theorem integer_key_fails_storage_id_parse_witness:
  "IncidentRepository_GetByID example_world ''1'' = Inr example_incident
   \<and> length ''1'' \<noteq> (24 :: nat)
   \<and> IncidentSeverity_IsValid Low
   \<and> example_validFormat ''a@b.com''
   \<and> ObjectIDFromHex ''1'' = Inl ErrInvalidHex
   \<and> IncidentService_UpdateIncidentSeverity example_validFormat example_world ''1''
         \<lparr>usv_Severity = Low, usv_AuthorEmail = []\<rparr>
       = (Inl (FailedUpdateSeverity (RepoInvalidIDFormat ErrInvalidHex)), example_world)
   \<and> IncidentService_AddWatcherToIncident example_validFormat example_world ''1''
         \<lparr>Email = ''a@b.com''\<rparr>
       = (Inl (FailedAddWatcher (RepoInvalidIncidentID ErrInvalidHex)), example_world)"
proof -
  have sev: "IncidentSeverity_IsValid Low"
    by (simp add: IncidentSeverity_IsValid_def ValidSeverities_def)
  have mail: "example_validFormat ''a@b.com''"
    by (simp add: example_validFormat_def)
  have len: "length ''1'' \<noteq> (24 :: nat)" by simp
  show ?thesis
    using integer_key_fails_storage_id_parse [OF example_GetByID,
        of Low example_validFormat "''a@b.com''"]
      integer_key_fails_storage_id_parse [OF example_GetByID,
        of Low example_validFormat "[]"]
      example_GetByID sev mail len
    by simp
qed

text \<open>
  The claim as written fails: the key 1 padded with zeros to 24 digits passes both
  parsers, and the severity write it leads to fails because no incident has the storage
  id \<open>000000000000000000000001\<close>, not because of the id's format.
\<close>

theorem padded_key_passes_both_parsers_counterexample:
  "Atoi ''000000000000000000000001'' = Inr 1
   \<and> ObjectIDFromHex ''000000000000000000000001'' = Inr 1
   \<and> IncidentRepository_GetByID example_world ''000000000000000000000001''
       = Inr example_incident
   \<and> IncidentSeverity_IsValid Low
   \<and> fst (IncidentService_UpdateIncidentSeverity example_validFormat example_world
            ''000000000000000000000001'' \<lparr>usv_Severity = Low, usv_AuthorEmail = []\<rparr>)
       = Inl (FailedUpdateSeverity RepoIncidentNotFound)"
proof -
  have a: "Atoi ''000000000000000000000001'' = Inr 1"
    by (simp add: Atoi_def decimal_def isDigit_def)
  have h: "ObjectIDFromHex ''000000000000000000000001'' = Inr 1"
    by (simp add: ObjectIDFromHex_def fromHexChar_def)
  have g: "IncidentRepository_GetByID example_world ''000000000000000000000001''
       = Inr example_incident"
    by (simp add: IncidentRepository_GetByID_def a FindOne_def example_world_def
        example_incident_def)
  have sev: "IncidentSeverity_IsValid Low"
    by (simp add: IncidentSeverity_IsValid_def ValidSeverities_def)
  have u: "IncidentRepository_UpdateSeverity example_world ''000000000000000000000001'' Low
      = (Inl RepoIncidentNotFound, example_world\<lparr>time_calls := 1\<rparr>)"
    by (simp add: IncidentRepository_UpdateSeverity_def h Now_def example_world_def
        example_incident_def)
  show ?thesis
    using a h g sev u by (simp add: IncidentService_UpdateIncidentSeverity_def)
qed

section \<open>Lookup by key\<close>

lemma digit_char: "m < 10 \<Longrightarrow> (of_char (''0123456789'' ! m) :: nat) = 48 + m"
proof -
  assume "m < 10"
  then have "m = 0 \<or> m = 1 \<or> m = 2 \<or> m = 3 \<or> m = 4 \<or> m = 5 \<or> m = 6 \<or> m = 7 \<or> m = 8
      \<or> m = 9"
    by arith
  then show ?thesis
    by (elim disjE) simp_all
qed

lemma formatDecimal_props:
  "formatDecimal n \<noteq> [] \<and> list_all isDigit (formatDecimal n)
   \<and> foldl (\<lambda>a c. 10 * a + (of_char c - 48)) 0 (formatDecimal n) = n"
proof (induction n rule: formatDecimal.induct)
  case (1 n)
  show ?case
  proof (cases "n < 10")
    case True
    have eq: "formatDecimal n = [''0123456789'' ! n]"
      using True by (subst formatDecimal.simps) simp
    have "isDigit (''0123456789'' ! n)"
      using digit_char[OF True] True by (simp add: isDigit_def)
    then show ?thesis
      unfolding eq using digit_char[OF True] by simp
  next
    case False
    have m: "n mod 10 < 10" by simp
    have ih: "formatDecimal (n div 10) \<noteq> []" "list_all isDigit (formatDecimal (n div 10))"
        "foldl (\<lambda>a c. 10 * a + (of_char c - 48)) 0 (formatDecimal (n div 10)) = n div 10"
      using 1[OF False] by simp_all
    have eq: "formatDecimal n = formatDecimal (n div 10) @ [''0123456789'' ! (n mod 10)]"
      using False by (subst formatDecimal.simps) simp
    have "isDigit (''0123456789'' ! (n mod 10))"
      using digit_char[OF m] m by (simp add: isDigit_def)
    then show ?thesis
      unfolding eq using ih digit_char[OF m] by simp
  qed
qed

lemma decimal_formatDecimal: "decimal (formatDecimal n) = Some n"
  using formatDecimal_props[of n] by (simp add: decimal_def)

lemma formatDecimal_no_sign:
  "hd (formatDecimal n) \<noteq> CHR ''-'' \<and> hd (formatDecimal n) \<noteq> CHR ''+''"
proof -
  have "formatDecimal n \<noteq> []" "list_all isDigit (formatDecimal n)"
    using formatDecimal_props[of n] by simp_all
  then have "isDigit (hd (formatDecimal n))"
    by (cases "formatDecimal n") simp_all
  then show ?thesis by (auto simp: isDigit_def)
qed

text \<open>The decimal string of a key parses back to the key.\<close>

lemma Atoi_Itoa: "Atoi (Itoa i) = Inr i"
proof (cases "sint i < 0")
  case True
  have lo: "- (2 ^ 63) \<le> sint i" using sint_ge[of i] by simp
  then have b: "nat (- sint i) \<le> 2 ^ 63" by (simp add: nat_le_iff)
  have "- (of_nat (nat (- sint i)) :: go_int) = - of_int (- sint i)"
    using True by simp
  then have v: "- (of_nat (nat (- sint i)) :: go_int) = i" by simp
  show ?thesis
    using True b v by (simp add: Itoa_def Atoi_def decimal_formatDecimal)
next
  case False
  have hi: "sint i < 2 ^ 63" using sint_lt[of i] by simp
  then have b: "nat (sint i) < 2 ^ 63" using False by (simp add: nat_less_iff)
  have "(of_nat (nat (sint i)) :: go_int) = of_int (sint i)"
    using False by simp
  then have v: "(of_nat (nat (sint i)) :: go_int) = i" by simp
  obtain c r where cr: "formatDecimal (nat (sint i)) = c # r"
    using formatDecimal_props[of "nat (sint i)"] by (cases "formatDecimal (nat (sint i))") auto
  have ns: "c \<noteq> CHR ''-''" "c \<noteq> CHR ''+''"
    using formatDecimal_no_sign[of "nat (sint i)"] cr by simp_all
  have d: "decimal (c # r) = Some (nat (sint i))"
    using decimal_formatDecimal[of "nat (sint i)"] cr by simp
  show ?thesis
    using False b v ns d by (simp add: Itoa_def Atoi_def cr)
qed

lemma hexEncode_numeral:
  "hexEncode (numeral k) n = hexEncode (pred_numeral k) (n div 16) @ [hextable ! (n mod 16)]"
  by (simp only: numeral_eq_Suc[of k] hexEncode.simps)

lemma example_Hex: "Hex (ID example_incident) = ''65a1b2c3d4e5f60718293a4b''"
  by (simp add: Hex_def example_incident_def hexEncode_numeral hextable_def)

lemma repo_AddNote_ok:
  assumes "inc \<in> set (collection w)"
  shows "\<exists>d0 docs. IncidentRepository_AddNote w (Hex (ID inc)) n =
           (Inr (d0\<lparr>Notes := Notes d0 @ [n\<lparr>n_ID := oids w (oid_calls w),
                                             n_CreatedAt := times w (time_calls w)\<rparr>],
                    UpdatedAt := times w (Suc (time_calls w))\<rparr>),
            w\<lparr>oid_calls := Suc (oid_calls w), time_calls := Suc (Suc (time_calls w)),
              collection := docs\<rparr>)
         \<and> find (\<lambda>x. ID x = ID inc) (collection w) = Some d0 \<and> ID d0 = ID inc"
proof -
  let ?n = "n\<lparr>n_ID := oids w (oid_calls w), n_CreatedAt := times w (time_calls w)\<rparr>"
  let ?u = "\<lambda>d. d\<lparr>Notes := Notes d @ [?n], UpdatedAt := times w (Suc (time_calls w))\<rparr>"
  obtain d0 where d0: "find (\<lambda>x. ID x = ID inc) (collection w) = Some d0" "ID d0 = ID inc"
    using find_ID_exists[OF assms] by blast
  obtain docs where docs: "FindOneAndUpdate (\<lambda>x. ID x = ID inc) ?u (collection w) = Some (?u d0, docs)"
    using FindOneAndUpdate_Some[OF d0(1), of ?u] by blast
  have "IncidentRepository_AddNote w (Hex (ID inc)) n =
           (Inr (?u d0),
            w\<lparr>oid_calls := Suc (oid_calls w), time_calls := Suc (Suc (time_calls w)),
              collection := docs\<rparr>)"
    using docs
    by (simp add: IncidentRepository_AddNote_def ObjectIDFromHex_Hex Now_def NewObjectID_def)
  then show ?thesis using d0 by blast
qed

lemma svc_GetByID_Inr:
  "IncidentService_GetByID w ident = Inr found \<longleftrightarrow>
   IncidentRepository_GetByID w ident = Inr found"
  by (simp add: IncidentService_GetByID_def split: sum.splits)

text \<open>
  Claim C5, as the code has it. A stored incident that is the first with its key is
  fetched under every identifier that parses to the key, its decimal string among them,
  and under nothing else: whatever \<open>GetByID\<close> returns, it was asked for by key, so the
  storage id is no lookup key of the fetch. \<open>AddNoteToIncident\<close> resolves the caller's
  identifier through the same fetch and writes to the storage id of the incident
  fetched (to that very incident when storage ids are unique). So does
  \<open>UpdateIncidentStatus\<close>, for a valid status, an allowed transition and an author email
  that is blank or does not pass the address test: it returns the updated incident when
  the author email is blank, and the "status updated but failed to add watcher" error,
  after the write, when the author email is not blank and does not pass the address
  test. An author email that passes the address test is left out.
\<close>

theorem lookup_by_incident_key:
  assumes stored: "FindOne (\<lambda>d. IncidentKey d = IncidentKey inc) (collection w) = Some inc"
    and ident: "Atoi ident = Inr (IncidentKey inc)"
  shows "Atoi (Itoa (IncidentKey inc)) = Inr (IncidentKey inc)
     \<and> IncidentService_GetByID w ident = Inr inc
     \<and> (\<forall>other found. IncidentService_GetByID w other = Inr found \<longrightarrow>
           Atoi other = Inr (IncidentKey found))
     \<and> (\<exists>upd w'. IncidentService_AddNoteToIncident w ident req = (Inr upd, w')
          \<and> ID upd = ID inc
          \<and> (distinct (map ID (collection w)) \<longrightarrow>
               upd = inc\<lparr>Notes := Notes inc @
                                [\<lparr>n_ID = oids w (oid_calls w), n_Content = an_Content req,
                                  n_CreatedAt = times w (time_calls w),
                                  n_AuthorEmail = an_AuthorEmail req, n_Type = an_Type req\<rparr>],
                          UpdatedAt := times w (Suc (time_calls w))\<rparr>))
     \<and> (IncidentStatus_IsValid to \<and> validateStatusTransition (Status inc) to = None \<longrightarrow>
          (\<exists>upd w1.
               IncidentRepository_UpdateStatus w (Hex (ID inc)) to = (Inr upd, w1)
             \<and> ID upd = ID inc \<and> Status upd = to \<and> upd \<in> set (collection w1)
             \<and> (distinct (map ID (collection w)) \<longrightarrow>
                  upd = inc\<lparr>Status := to, UpdatedAt := times w (time_calls w)\<rparr>)
             \<and> (Trim email '' '' = [] \<longrightarrow>
                  IncidentService_UpdateIncidentStatus vf w ident
                      \<lparr>us_Status = to, us_AuthorEmail = email\<rparr>
                    = (Inr upd, w1\<lparr>oid_calls := Suc (oid_calls w1)\<rparr>))
             \<and> (Trim email '' '' \<noteq> [] \<and> \<not> vf email \<longrightarrow>
                  IncidentService_UpdateIncidentStatus vf w ident
                      \<lparr>us_Status = to, us_AuthorEmail = email\<rparr>
                    = (Inl (StatusUpdatedWatcherFailed
                              (InvalidEmail (InvalidEmailFormat ErrBadFormat))), w1))))"
proof -
  have found: "IncidentRepository_GetByID w ident = Inr inc"
    using stored ident by (simp add: GetByID_Inr FindOne_def)
  have mem: "inc \<in> set (collection w)"
    by (rule GetByID_in_collection[OF found])
  have a: "Atoi (Itoa (IncidentKey inc)) = Inr (IncidentKey inc)"
    by (rule Atoi_Itoa)
  have b: "IncidentService_GetByID w ident = Inr inc"
    using found by (simp add: svc_GetByID_Inr)
  have c: "Atoi other = Inr (IncidentKey f)"
    if gf: "IncidentService_GetByID w other = Inr f" for other f
  proof -
    obtain k where k: "Atoi other = Inr k" "find (\<lambda>d. IncidentKey d = k) (collection w) = Some f"
      using gf by (auto simp: svc_GetByID_Inr GetByID_Inr)
    show ?thesis using k(1) find_Some_holds[OF k(2)] by simp
  qed
  have same: "distinct (map ID (collection w)) \<Longrightarrow>
      find (\<lambda>x. ID x = ID inc) (collection w) = Some inc"
    using find_distinct[of ID "collection w" inc] mem by simp
  let ?note = "\<lparr>n_ID = 0, n_Content = an_Content req, n_CreatedAt = 0,
                 n_AuthorEmail = an_AuthorEmail req, n_Type = an_Type req\<rparr>"
  obtain d0 docs where n:
    "IncidentRepository_AddNote w (Hex (ID inc)) ?note =
           (Inr (d0\<lparr>Notes := Notes d0 @ [?note\<lparr>n_ID := oids w (oid_calls w),
                                             n_CreatedAt := times w (time_calls w)\<rparr>],
                    UpdatedAt := times w (Suc (time_calls w))\<rparr>),
            w\<lparr>oid_calls := Suc (oid_calls w), time_calls := Suc (Suc (time_calls w)),
              collection := docs\<rparr>)"
    "find (\<lambda>x. ID x = ID inc) (collection w) = Some d0" "ID d0 = ID inc"
    using repo_AddNote_ok[OF mem, of ?note] by blast
  let ?updn = "d0\<lparr>Notes := Notes d0 @ [?note\<lparr>n_ID := oids w (oid_calls w),
                                             n_CreatedAt := times w (time_calls w)\<rparr>],
                    UpdatedAt := times w (Suc (time_calls w))\<rparr>"
  have n1: "\<exists>w'. IncidentService_AddNoteToIncident w ident req = (Inr ?updn, w')"
    using found n(1)
    by (simp add: IncidentService_AddNoteToIncident_def NewObjectID_def Let_def)
  have n2: "ID ?updn = ID inc" using n(3) by simp
  have n3: "distinct (map ID (collection w)) \<longrightarrow>
               ?updn = inc\<lparr>Notes := Notes inc @
                                [\<lparr>n_ID = oids w (oid_calls w), n_Content = an_Content req,
                                  n_CreatedAt = times w (time_calls w),
                                  n_AuthorEmail = an_AuthorEmail req, n_Type = an_Type req\<rparr>],
                          UpdatedAt := times w (Suc (time_calls w))\<rparr>"
    using same n(2) by auto
  have d: "\<exists>upd w'. IncidentService_AddNoteToIncident w ident req = (Inr upd, w')
          \<and> ID upd = ID inc
          \<and> (distinct (map ID (collection w)) \<longrightarrow>
               upd = inc\<lparr>Notes := Notes inc @
                                [\<lparr>n_ID = oids w (oid_calls w), n_Content = an_Content req,
                                  n_CreatedAt = times w (time_calls w),
                                  n_AuthorEmail = an_AuthorEmail req, n_Type = an_Type req\<rparr>],
                          UpdatedAt := times w (Suc (time_calls w))\<rparr>)"
    using n1 n2 n3 by blast
  show ?thesis
    using a b c d UpdateStatus_by_key[OF _ found, of to email vf] by blast
qed

theorem lookup_by_incident_key_witness:
  "FindOne (\<lambda>d. IncidentKey d = IncidentKey example_incident) (collection example_world)
     = Some example_incident
   \<and> Atoi ''1'' = Inr (IncidentKey example_incident)
   \<and> Itoa (IncidentKey example_incident) = ''1''
   \<and> IncidentService_GetByID example_world ''1'' = Inr example_incident
   \<and> distinct (map ID (collection example_world))
   \<and> (\<exists>upd w'. IncidentService_AddNoteToIncident example_world ''1'' example_note_request
                   = (Inr upd, w')
        \<and> ID upd = ID example_incident
        \<and> Notes upd = [\<lparr>n_ID = 0x65a1b2c3d4e5f60718293a4c,
                          n_Content = ''Restarted the connection pool'', n_CreatedAt = 10,
                          n_AuthorEmail = ''a@b.com'', n_Type = Update\<rparr>])
   \<and> IncidentStatus_IsValid Closed
   \<and> validateStatusTransition (Status example_incident) Closed = None
   \<and> Trim [] '' '' = []
   \<and> IncidentService_UpdateIncidentStatus example_validFormat example_world ''1''
         \<lparr>us_Status = Closed, us_AuthorEmail = []\<rparr>
       = (Inr example_closed, example_world_closed\<lparr>oid_calls := 1\<rparr>)
   \<and> ID example_closed = ID example_incident
   \<and> Trim ''not-an-email'' '' '' \<noteq> [] \<and> \<not> example_validFormat ''not-an-email''
   \<and> IncidentService_UpdateIncidentStatus example_validFormat example_world ''1''
         \<lparr>us_Status = Closed, us_AuthorEmail = ''not-an-email''\<rparr>
       = (Inl (StatusUpdatedWatcherFailed (InvalidEmail (InvalidEmailFormat ErrBadFormat))),
          example_world_closed)
   \<and> example_closed \<in> set (collection example_world_closed)"
proof -
  have stored: "FindOne (\<lambda>d. IncidentKey d = IncidentKey example_incident)
      (collection example_world) = Some example_incident"
    by (simp add: FindOne_def example_world_def)
  have ident: "Atoi ''1'' = Inr (IncidentKey example_incident)"
    by (simp add: Atoi_def decimal_def isDigit_def example_incident_def)
  have itoa: "Itoa (IncidentKey example_incident) = ''1''"
    by (simp add: Itoa_def formatDecimal.simps example_incident_def)
  have dist: "distinct (map ID (collection example_world))"
    by (simp add: example_world_def)
  have vals: "oids example_world (oid_calls example_world) = 0x65a1b2c3d4e5f60718293a4c"
      "times example_world (time_calls example_world) = 10"
      "Notes example_incident = []"
      "an_Content example_note_request = ''Restarted the connection pool''"
      "an_AuthorEmail example_note_request = ''a@b.com''"
      "an_Type example_note_request = Update"
    by (simp_all add: example_world_def example_incident_def example_note_request_def)
  have oc: "Suc (oid_calls example_world_closed) = 1"
    by (simp add: example_world_closed_def example_world_def)
  have cl: "ID example_closed = ID example_incident"
      "example_closed \<in> set (collection example_world_closed)"
    by (simp_all add: example_closed_def example_world_closed_def)
  have fetch_note: "IncidentService_GetByID example_world ''1'' = Inr example_incident
       \<and> (\<exists>upd w'. IncidentService_AddNoteToIncident example_world ''1'' example_note_request
                   = (Inr upd, w')
        \<and> ID upd = ID example_incident
        \<and> Notes upd = [\<lparr>n_ID = 0x65a1b2c3d4e5f60718293a4c,
                          n_Content = ''Restarted the connection pool'', n_CreatedAt = 10,
                          n_AuthorEmail = ''a@b.com'', n_Type = Update\<rparr>])"
    using lookup_by_incident_key [OF stored ident,
        of example_note_request Closed "[]" example_validFormat] dist vals
    by auto
  have blank: "IncidentService_UpdateIncidentStatus example_validFormat example_world ''1''
         \<lparr>us_Status = Closed, us_AuthorEmail = []\<rparr>
       = (Inr example_closed, example_world_closed\<lparr>oid_calls := 1\<rparr>)"
    using lookup_by_incident_key [OF stored ident,
        of example_note_request Closed "[]" example_validFormat]
      example_statuses(7,8) example_authors(1) example_status_write oc
    by auto
  have ill: "IncidentService_UpdateIncidentStatus example_validFormat example_world ''1''
         \<lparr>us_Status = Closed, us_AuthorEmail = ''not-an-email''\<rparr>
       = (Inl (StatusUpdatedWatcherFailed (InvalidEmail (InvalidEmailFormat ErrBadFormat))),
          example_world_closed)"
    using lookup_by_incident_key [OF stored ident,
        of example_note_request Closed "''not-an-email''" example_validFormat]
      example_statuses(7,8) example_authors(4,5) example_status_write
    by auto
  show ?thesis
    using stored ident itoa dist fetch_note example_statuses(7,8) example_authors(1,4,5)
      blank ill cl
    by simp
qed

text \<open>
  The claim as written fails: the stored incident is not found under its storage id,
  which the fetch path refuses as an identifier.
\<close>

theorem fetch_by_storage_id_counterexample:
  "example_incident \<in> set (collection example_world)
   \<and> Hex (ID example_incident) = ''65a1b2c3d4e5f60718293a4b''
   \<and> IncidentService_GetByID example_world (Hex (ID example_incident))
       = Inl (FailedGetIncident (RepoInvalidIDFormat ErrNum))"
proof -
  have "IncidentService_GetByID example_world ''65a1b2c3d4e5f60718293a4b''
       = Inl (FailedGetIncident (RepoInvalidIDFormat ErrNum))"
    by (simp add: IncidentService_GetByID_def IncidentRepository_GetByID_def Atoi_def
        decimal_def isDigit_def)
  then show ?thesis
    by (simp add: example_Hex example_world_def)
qed

section \<open>What the handlers check\<close>

lemma IsValid_severity_nonempty: "IncidentSeverity_IsValid s \<Longrightarrow> s \<noteq> []"
  by (auto simp: IncidentSeverity_IsValid_def ValidSeverities_def Low_def Medium_def High_def
      Critical_def)

text \<open>
  The handler and the service accept every title that is not empty: nothing reads the
  \<open>min=3,max=255\<close> of the struct tag.
\<close>

lemma handler_CreateIncident_accepts:
  assumes title: "cr_Title req \<noteq> []"
    and sev: "IncidentSeverity_IsValid (cr_Severity req)"
    and mail: "Trim (cr_AuthorEmail req) '' '' \<noteq> [] \<longrightarrow> validFormat (cr_AuthorEmail req)"
    and fresh: "oids w (oid_calls w + length (cr_Notes req)) \<notin> ID ` set (collection w)"
  shows "\<exists>inc w'. IncidentHandler_CreateIncident validFormat w req = (DataResponse 201 inc, w')
      \<and> Title inc = cr_Title req \<and> collection w' = collection w @ [inc]"
proof -
  obtain k where k: "IncidentRepository_GetNextIncidentKey w = Inr k"
    using GetNextIncidentKey_total by blast
  have "\<exists>inc w'. IncidentService_CreateIncident validFormat w req = (Inr inc, w')
      \<and> Title inc = cr_Title req \<and> collection w' = collection w @ [inc]"
    using CreateIncident_ok[where validFormat=validFormat and req=req and w=w, OF sev mail fresh k]
    by (simp add: Let_def)
  then obtain inc w' where r: "IncidentService_CreateIncident validFormat w req = (Inr inc, w')"
      "Title inc = cr_Title req" "collection w' = collection w @ [inc]"
    by blast
  have "IncidentHandler_CreateIncident validFormat w req = (DataResponse 201 inc, w')"
    using title IsValid_severity_nonempty[OF sev] r(1)
    by (simp add: IncidentHandler_CreateIncident_def)
  then show ?thesis using r(2,3) by blast
qed

lemma handler_CreateIncident_empty_title:
  "cr_Title req = [] \<Longrightarrow>
   IncidentHandler_CreateIncident validFormat w req = (ErrorResponse 400 ''Title is required'' None, w)"
  by (simp add: IncidentHandler_CreateIncident_def)

text \<open>
  Claim C3 says that a title of 2 characters and one of 256 characters are rejected. The
  code does not reject them: on the empty store the handler answers both requests with
  201 and the incident it stored, whose title is the 2 or the 256 characters sent.
\<close>

theorem CreateIncident_title_bounds_not_enforced:
  "(\<exists>inc w'. IncidentHandler_CreateIncident example_validFormat empty_world
                 (example_request\<lparr>cr_Title := ''ab''\<rparr>) = (DataResponse 201 inc, w')
      \<and> Title inc = ''ab'' \<and> collection w' = [inc])
   \<and> length (replicate 256 CHR ''a'') = 256
   \<and> (\<exists>inc w'. IncidentHandler_CreateIncident example_validFormat empty_world
                 (example_request\<lparr>cr_Title := replicate 256 CHR ''a''\<rparr>)
                   = (DataResponse 201 inc, w')
      \<and> Title inc = replicate 256 CHR ''a'' \<and> collection w' = [inc])"
proof -
  have a: "\<exists>inc w'. IncidentHandler_CreateIncident example_validFormat empty_world
                 (example_request\<lparr>cr_Title := t\<rparr>) = (DataResponse 201 inc, w')
      \<and> Title inc = t \<and> collection w' = [inc]" if "t \<noteq> []" for t
    using handler_CreateIncident_accepts[of "example_request\<lparr>cr_Title := t\<rparr>"
        example_validFormat empty_world] that example_request_valid example_request_fresh(2)
    by (simp add: empty_world_def)
  show ?thesis
    using a[of "''ab''"] a[of "replicate 256 CHR ''a''"] by simp
qed

text \<open>
  \<open>AddNoteToIncident\<close> accepts every content that is not empty and every type: nothing
  reads the \<open>max=1000\<close> and the \<open>oneof\<close> of the struct tags.
\<close>

lemma handler_AddNote_accepts:
  assumes ident: "ident \<noteq> []"
    and content: "an_Content req \<noteq> []"
    and found: "IncidentRepository_GetByID w ident = Inr inc"
  shows "\<exists>upd w'. IncidentHandler_AddNoteToIncident w ident req = (DataResponse 201 upd, w')
      \<and> ID upd = ID inc \<and> Notes upd \<noteq> []
      \<and> n_Content (last (Notes upd)) = an_Content req
      \<and> n_Type (last (Notes upd)) = an_Type req"
proof -
  let ?note = "\<lparr>n_ID = 0, n_Content = an_Content req, n_CreatedAt = 0,
                 n_AuthorEmail = an_AuthorEmail req, n_Type = an_Type req\<rparr>"
  obtain d0 docs where n:
    "IncidentRepository_AddNote w (Hex (ID inc)) ?note =
           (Inr (d0\<lparr>Notes := Notes d0 @ [?note\<lparr>n_ID := oids w (oid_calls w),
                                             n_CreatedAt := times w (time_calls w)\<rparr>],
                    UpdatedAt := times w (Suc (time_calls w))\<rparr>),
            w\<lparr>oid_calls := Suc (oid_calls w), time_calls := Suc (Suc (time_calls w)),
              collection := docs\<rparr>)"
    "ID d0 = ID inc"
    using repo_AddNote_ok[OF GetByID_in_collection[OF found], of ?note] by blast
  let ?upd = "d0\<lparr>Notes := Notes d0 @ [?note\<lparr>n_ID := oids w (oid_calls w),
                                             n_CreatedAt := times w (time_calls w)\<rparr>],
                    UpdatedAt := times w (Suc (time_calls w))\<rparr>"
  have "\<exists>w'. IncidentHandler_AddNoteToIncident w ident req = (DataResponse 201 ?upd, w')"
    using ident content found n(1)
    by (simp add: IncidentHandler_AddNoteToIncident_def IncidentService_AddNoteToIncident_def
        NewObjectID_def Let_def)
  moreover have "ID ?upd = ID inc" "Notes ?upd \<noteq> []"
      "n_Content (last (Notes ?upd)) = an_Content req"
      "n_Type (last (Notes ?upd)) = an_Type req"
    using n(2) by simp_all
  ultimately show ?thesis by blast
qed

text \<open>
  Claim C4 says that a content of more than 1000 characters and a type outside the four
  listed ones are rejected. The code does not reject them: for the stored incident with
  key 1 the handler answers a note of 1001 characters and type \<open>bogus\<close> with 201, and
  the note is stored as sent.
\<close>

theorem AddNote_bounds_not_enforced:
  "length (replicate 1001 CHR ''x'') = 1001
   \<and> ''bogus'' \<notin> {Update, Investigation, Resolution, Communication}
   \<and> (\<exists>upd w'. IncidentHandler_AddNoteToIncident example_world ''1''
                   \<lparr>an_Content = replicate 1001 CHR ''x'', an_AuthorEmail = ''a@b.com'',
                    an_Type = ''bogus''\<rparr> = (DataResponse 201 upd, w')
        \<and> ID upd = ID example_incident
        \<and> n_Content (last (Notes upd)) = replicate 1001 CHR ''x''
        \<and> n_Type (last (Notes upd)) = ''bogus'')"
proof -
  have t: "''bogus'' \<notin> {Update, Investigation, Resolution, Communication}"
    by (simp add: Update_def Investigation_def Resolution_def Communication_def)
  have c: "replicate 1001 CHR ''x'' \<noteq> []" by simp
  show ?thesis
    using handler_AddNote_accepts[of "''1''"
        "\<lparr>an_Content = replicate 1001 CHR ''x'', an_AuthorEmail = ''a@b.com'',
          an_Type = ''bogus''\<rparr>" example_world example_incident] example_GetByID t c
    by auto
qed

text \<open>What the claim gets right: no incident, no note; no content, no note.\<close>

lemma AddNote_not_found:
  "IncidentRepository_GetByID w ident = Inl err \<Longrightarrow>
   IncidentService_AddNoteToIncident w ident req = (Inl (IncidentNotFound err), w)"
  by (simp add: IncidentService_AddNoteToIncident_def)

lemma handler_AddNote_empty_content:
  "ident \<noteq> [] \<Longrightarrow> an_Content req = [] \<Longrightarrow>
   IncidentHandler_AddNoteToIncident w ident req
     = (ErrorResponse 400 ''Note content is required'' None, w)"
  by (simp add: IncidentHandler_AddNoteToIncident_def)

end
